theory Spec2Isabelle
  imports Complex_Main "HOL-Library.Sublist"
begin

section \<open>Python values, exceptions and log records\<close>

text \<open>
  The two scripts are dynamically typed: \<open>open_url\<close> and \<open>wait\<close> inspect the run-time
  type of their argument with \<open>isinstance\<close>. A Python float is modelled by the real
  number it denotes, or one of the three special values; only its comparison with zero
  is ever used. \<open>PyNumber\<close> is an instance of another numeric class
  (\<open>decimal.Decimal\<close>, \<open>fractions.Fraction\<close>), named by the string, with the number it
  denotes; \<open>PyObject\<close> is an object of any other class (named by the string) that is
  not a number. Neither is an instance of \<open>str\<close>, \<open>int\<close> or \<open>float\<close>.
\<close>

datatype pyfloat = Finite real | PosInf | NegInf | NaN

datatype pyval =
    PyNone
  | PyBool bool
  | PyInt int
  | PyFloat pyfloat
  | PyStr string
  | PyNumber string real
  | PyObject string

text \<open>
  A raised exception carries its class name and its text. \<open>Exception\<close> is an instance
  of a class deriving from Python's \<open>Exception\<close> (what \<open>except Exception\<close> catches);
  \<open>BaseException\<close> is one deriving from \<open>BaseException\<close> only (\<open>KeyboardInterrupt\<close>,
  \<open>SystemExit\<close>), which \<open>except Exception\<close> lets through.
\<close>

datatype exn = Exception string string | BaseException string string

fun is_Exception :: "exn \<Rightarrow> bool" where
  "is_Exception (Exception c m) = True"
| "is_Exception (BaseException c m) = False"

definition ValueError :: "string \<Rightarrow> exn" where
  "ValueError m = Exception ''ValueError'' m"

definition TimeoutException :: "string \<Rightarrow> exn" where
  "TimeoutException m = Exception ''TimeoutException'' m"

definition WebDriverException :: "string \<Rightarrow> exn" where
  "WebDriverException m = Exception ''WebDriverException'' m"

datatype level = INFO | ERROR

datatype log_arg = ArgVal pyval | ArgExn exn

record log_record =
  logger_name :: string
  levelname :: level
  msg :: string
  args :: "log_arg list"

section \<open>The browser-automation library as a parameter\<close>

text \<open>
  Everything the scripts do to the browser goes through the automation library, which is
  not part of the repository. Its entry points are the fields of a record: each takes
  the state \<open>'b\<close> of the outside world (browser process, pages, network) and returns
  either the exception it raised or its value, with the new state. \<open>'v\<close> is the type of
  the values a bounded wait returns (a page element, or the truth value of a URL test).
\<close>

datatype locator = ById string

datatype condition =
    presence_of_element_located locator
  | element_to_be_clickable locator
  | url_contains string

record ('b, 'v) selenium =
  drv_Chrome :: "string list \<Rightarrow> 'b \<Rightarrow> (exn + unit) \<times> 'b"
  drv_get :: "string \<Rightarrow> 'b \<Rightarrow> (exn + unit) \<times> 'b"
  drv_implicitly_wait :: "pyval \<Rightarrow> 'b \<Rightarrow> (exn + unit) \<times> 'b"
  drv_quit :: "'b \<Rightarrow> (exn + unit) \<times> 'b"
  drv_execute_script :: "string \<Rightarrow> pyval list \<Rightarrow> 'b \<Rightarrow> (exn + pyval) \<times> 'b"
  drv_until :: "nat \<Rightarrow> condition \<Rightarrow> 'b \<Rightarrow> (exn + 'v) \<times> 'b"
  drv_send_keys :: "'v \<Rightarrow> string \<Rightarrow> 'b \<Rightarrow> (exn + unit) \<times> 'b"
  drv_click :: "'v \<Rightarrow> 'b \<Rightarrow> (exn + unit) \<times> 'b"

text \<open>
  The program state: the outside world, the list of library calls made so far, each with
  the exception it raised if any, and the records handed to the logging module.
\<close>

datatype 'v call =
    CallChrome "string list"
  | CallGet string
  | CallImplicitlyWait pyval
  | CallQuit
  | CallExecuteScript string "pyval list"
  | CallUntil nat condition
  | CallSendKeys 'v string
  | CallClick 'v

type_synonym 'v event = "'v call \<times> exn option"

record ('b, 'v) world =
  browser :: 'b
  trace :: "'v event list"
  log :: "log_record list"

definition outcome :: "exn + 'a \<Rightarrow> exn option" where
  "outcome r = (case r of Inl e \<Rightarrow> Some e | Inr x \<Rightarrow> None)"

definition invoke ::
  "'v call \<Rightarrow> ('b \<Rightarrow> (exn + 'a) \<times> 'b) \<Rightarrow> ('b, 'v) world \<Rightarrow> (exn + 'a) \<times> ('b, 'v) world" where
  "invoke c f w =
     (case f (browser w) of
        (r, b') \<Rightarrow> (r, w\<lparr>browser := b', trace := trace w @ [(c, outcome r)]\<rparr>))"

definition logger_info :: "string \<Rightarrow> string \<Rightarrow> log_arg list \<Rightarrow> ('b, 'v) world \<Rightarrow> ('b, 'v) world" where
  "logger_info name m as w =
     w\<lparr>log := log w @ [\<lparr>logger_name = name, levelname = INFO, msg = m, args = as\<rparr>]\<rparr>"

definition logger_error :: "string \<Rightarrow> string \<Rightarrow> log_arg list \<Rightarrow> ('b, 'v) world \<Rightarrow> ('b, 'v) world" where
  "logger_error name m as w =
     w\<lparr>log := log w @ [\<lparr>logger_name = name, levelname = ERROR, msg = m, args = as\<rparr>]\<rparr>"

text \<open>
  Every method of both scripts has the shape
  \<^verbatim>\<open>try: body  except Exception as e: self.logger.error(fmt, e); raise\<close>.
  The handler runs for instances of \<open>Exception\<close> only, and re-raises the same object.
\<close>

definition except_Exception ::
  "string \<Rightarrow> string \<Rightarrow> (exn + 'a) \<times> ('b, 'v) world \<Rightarrow> (exn + 'a) \<times> ('b, 'v) world" where
  "except_Exception name fmt res =
     (case res of
        (Inl e, w') \<Rightarrow>
          if is_Exception e then (Inl e, logger_error name fmt [ArgExn e] w') else (Inl e, w')
      | (Inr x, w') \<Rightarrow> (Inr x, w'))"

section \<open>WebDriverManager\<close>

definition isinstance_str :: "pyval \<Rightarrow> bool" where
  "isinstance_str v = (case v of PyStr s \<Rightarrow> True | _ \<Rightarrow> False)"

text \<open>\<open>url.startswith(p)\<close>; the source evaluates it on instances of \<open>str\<close> only.\<close>

definition startswith :: "pyval \<Rightarrow> string \<Rightarrow> bool" where
  "startswith v p = (case v of PyStr s \<Rightarrow> prefix p s | _ \<Rightarrow> False)"

definition str_of :: "pyval \<Rightarrow> string" where
  "str_of v = (case v of PyStr s \<Rightarrow> s | _ \<Rightarrow> [])"

definition open_url ::
  "('b, 'v) selenium \<Rightarrow> pyval \<Rightarrow> ('b, 'v) world \<Rightarrow> (exn + unit) \<times> ('b, 'v) world" where
  "open_url d url w =
     except_Exception ''WebDriverManager'' ''Error opening URL: %s''
       (if \<not> isinstance_str url \<or> \<not> startswith url ''http''
        then (Inl (ValueError ''Invalid URL provided''), w)
        else (case invoke (CallGet (str_of url)) (drv_get d (str_of url)) w of
                (Inl e, w') \<Rightarrow> (Inl e, w')
              | (Inr u, w') \<Rightarrow>
                  (Inr (), logger_info ''WebDriverManager'' ''Opened URL: %s'' [ArgVal url] w')))"

text \<open>
  \<open>isinstance(seconds, (int, float))\<close>: Python's \<open>bool\<close> is a subclass of \<open>int\<close>, so
  \<open>True\<close> and \<open>False\<close> are instances of \<open>int\<close>.
\<close>

definition isinstance_int_float :: "pyval \<Rightarrow> bool" where
  "isinstance_int_float v =
     (case v of PyBool b \<Rightarrow> True | PyInt i \<Rightarrow> True | PyFloat f \<Rightarrow> True | _ \<Rightarrow> False)"

text \<open>
  \<open>seconds < 0\<close>, which the source evaluates on instances of \<open>int\<close> or \<open>float\<close> only.
  \<open>True\<close> is 1 and \<open>False\<close> is 0; every comparison with NaN is false.
\<close>

fun lt_zero :: "pyval \<Rightarrow> bool" where
  "lt_zero (PyBool b) = False"
| "lt_zero (PyInt i) = (i < 0)"
| "lt_zero (PyFloat (Finite r)) = (r < 0)"
| "lt_zero (PyFloat NegInf) = True"
| "lt_zero (PyFloat PosInf) = False"
| "lt_zero (PyFloat NaN) = False"
| "lt_zero v = False"

definition wait ::
  "('b, 'v) selenium \<Rightarrow> pyval \<Rightarrow> ('b, 'v) world \<Rightarrow> (exn + unit) \<times> ('b, 'v) world" where
  "wait d seconds w =
     except_Exception ''WebDriverManager'' ''Error during wait: %s''
       (if \<not> isinstance_int_float seconds \<or> lt_zero seconds
        then (Inl (ValueError ''Wait time must be a non-negative number''), w)
        else (case invoke (CallImplicitlyWait seconds) (drv_implicitly_wait d seconds) w of
                (Inl e, w') \<Rightarrow> (Inl e, w')
              | (Inr u, w') \<Rightarrow>
                  (Inr (), logger_info ''WebDriverManager'' ''Implicit wait for %s seconds.''
                             [ArgVal seconds] w')))"

definition quit_driver ::
  "('b, 'v) selenium \<Rightarrow> ('b, 'v) world \<Rightarrow> (exn + unit) \<times> ('b, 'v) world" where
  "quit_driver d w =
     except_Exception ''WebDriverManager'' ''Error quitting WebDriver: %s''
       (case invoke CallQuit (drv_quit d) w of
          (Inl e, w') \<Rightarrow> (Inl e, w')
        | (Inr u, w') \<Rightarrow>
            (Inr (), logger_info ''WebDriverManager'' ''WebDriver quit successfully.'' [] w'))"

definition execute_script ::
  "('b, 'v) selenium \<Rightarrow> string \<Rightarrow> pyval list \<Rightarrow> ('b, 'v) world
     \<Rightarrow> (exn + pyval) \<times> ('b, 'v) world" where
  "execute_script d script as w =
     except_Exception ''WebDriverManager'' ''Error executing script: %s''
       (case invoke (CallExecuteScript script as) (drv_execute_script d script as) w of
          (Inl e, w') \<Rightarrow> (Inl e, w')
        | (Inr result, w') \<Rightarrow>
            (Inr result, logger_info ''WebDriverManager'' ''Executed script: %s''
                           [ArgVal (PyStr script)] w'))"

text \<open>
  \<open>_default_options\<close> differs between the two scripts. An \<open>Options\<close> object is
  modelled by its list of arguments.
\<close>

definition script1_default_options :: "('b, 'v) world \<Rightarrow> string list \<times> ('b, 'v) world" where
  "script1_default_options w =
     ([''--disable-gpu'', ''--no-sandbox'', ''--disable-dev-shm-usage''],
      logger_info ''WebDriverManager'' ''Default Chrome options set.'' [] w)"

definition script2_default_options :: "('b, 'v) world \<Rightarrow> string list \<times> ('b, 'v) world" where
  "script2_default_options w =
     ([''--user-data-dir=C:'' @ [CHR 0x5C] @ ''chrome_data'', ''--remote-debugging-port=9222'',
       ''--disable-gpu'', ''--no-sandbox'', ''--disable-dev-shm-usage''],
      logger_info ''WebDriverManager''
        ''Default Chrome options set with user data directory and port.'' [] w)"

text \<open>
  \<open>_initialize_driver\<close>; the first argument is the \<open>_default_options\<close> of the enclosing
  class. \<open>options or self._default_options()\<close> takes the defaults only when no options
  object was given (\<open>None\<close>): an \<open>Options\<close> object is truthy. Resolving the driver binary,
  starting the service and launching the browser are one library call.
\<close>

definition initialize_driver ::
  "(('b, 'v) world \<Rightarrow> string list \<times> ('b, 'v) world) \<Rightarrow> ('b, 'v) selenium
     \<Rightarrow> string list option \<Rightarrow> ('b, 'v) world \<Rightarrow> (exn + unit) \<times> ('b, 'v) world" where
  "initialize_driver default_options d options w =
     except_Exception ''WebDriverManager'' ''Error initializing WebDriver: %s''
       (case (case options of Some os \<Rightarrow> (os, w) | None \<Rightarrow> default_options w) of
          (chrome_options, w0) \<Rightarrow>
            (case invoke (CallChrome chrome_options) (drv_Chrome d chrome_options) w0 of
               (Inl e, w') \<Rightarrow> (Inl e, w')
             | (Inr u, w') \<Rightarrow>
                 (Inr (), logger_info ''WebDriverManager'' ''WebDriver initialized successfully.''
                            [] w')))"

section \<open>BrowserAutomation\<close>

text \<open>Sequencing of statements inside a \<open>try\<close> block: the first exception ends the block.\<close>

definition and_then ::
  "(exn + 'a) \<times> ('b, 'v) world \<Rightarrow> ('a \<Rightarrow> ('b, 'v) world \<Rightarrow> (exn + 'c) \<times> ('b, 'v) world)
     \<Rightarrow> (exn + 'c) \<times> ('b, 'v) world" where
  "and_then res f = (case res of (Inl e, w') \<Rightarrow> (Inl e, w') | (Inr x, w') \<Rightarrow> f x w')"

text \<open>script1.py; the query is a string, which the f-string inserts as it is.\<close>

definition perform_google_search ::
  "('b, 'v) selenium \<Rightarrow> string \<Rightarrow> ('b, 'v) world \<Rightarrow> (exn + unit) \<times> ('b, 'v) world" where
  "perform_google_search d query w =
     except_Exception ''BrowserAutomation'' ''Error performing Google search: %s''
       (let search_url = ''https://www.google.com/search?q='' @ query in
        and_then (open_url d (PyStr search_url) w) (\<lambda>u w'.
          (Inr (), logger_info ''BrowserAutomation'' ''Performed Google search for query: %s''
                     [ArgVal (PyStr query)] w')))"

definition scroll_to_bottom ::
  "('b, 'v) selenium \<Rightarrow> ('b, 'v) world \<Rightarrow> (exn + unit) \<times> ('b, 'v) world" where
  "scroll_to_bottom d w =
     except_Exception ''BrowserAutomation'' ''Error scrolling to bottom: %s''
       (and_then
          (execute_script d ''window.scrollTo(0, document.body.scrollHeight);'' [] w)
          (\<lambda>r w'. (Inr (), logger_info ''BrowserAutomation'' ''Scrolled to bottom of the page.''
                              [] w')))"

text \<open>script2.py: the login flow. Each bounded wait is \<open>WebDriverWait(driver, 10).until\<close>.\<close>

definition portal_url :: string where
  "portal_url = ''https://platonus.iitu.edu.kz/''"

definition login_field :: condition where
  "login_field = presence_of_element_located (ById ''login_input'')"

definition pass_field :: condition where
  "pass_field = presence_of_element_located (ById ''pass_input'')"

definition submit_button :: condition where
  "submit_button = element_to_be_clickable (ById ''Submit1'')"

definition dashboard :: condition where
  "dashboard = url_contains ''/dashboard''"

definition login_platonus ::
  "('b, 'v) selenium \<Rightarrow> string \<Rightarrow> string \<Rightarrow> ('b, 'v) world
     \<Rightarrow> (exn + unit) \<times> ('b, 'v) world" where
  "login_platonus d login password w =
     except_Exception ''BrowserAutomation'' ''Error logging in to Platonus: %s''
       (and_then (open_url d (PyStr portal_url) w) (\<lambda>u w1.
        and_then (invoke (CallUntil 10 login_field) (drv_until d 10 login_field) w1) (\<lambda>el1 w2.
        and_then (invoke (CallSendKeys el1 login) (drv_send_keys d el1 login) w2) (\<lambda>u w3.
        and_then (invoke (CallUntil 10 pass_field) (drv_until d 10 pass_field)
                    (logger_info ''BrowserAutomation'' ''Entered login.'' [] w3)) (\<lambda>el2 w4.
        and_then (invoke (CallSendKeys el2 password) (drv_send_keys d el2 password) w4) (\<lambda>u w5.
        and_then (invoke (CallUntil 10 submit_button) (drv_until d 10 submit_button)
                    (logger_info ''BrowserAutomation'' ''Entered password.'' [] w5)) (\<lambda>el3 w6.
        and_then (invoke (CallClick el3) (drv_click d el3) w6) (\<lambda>u w7.
        and_then (invoke (CallUntil 10 dashboard) (drv_until d 10 dashboard)
                    (logger_info ''BrowserAutomation'' ''Clicked login button.'' [] w7)) (\<lambda>r w8.
          (Inr (), logger_info ''BrowserAutomation''
                     ''Login successful, navigated to dashboard.'' [] w8))))))))))"

section \<open>The two main functions\<close>

text \<open>
  \<^verbatim>\<open>try: body  except Exception as e: logger.error(fmt, e)  finally: quit_driver(); logger.info(..)\<close>
  An instance of \<open>Exception\<close> raised by the body is logged and dropped; any other
  exception stays pending while the \<open>finally\<close> block runs and is raised after it. An
  exception raised inside the \<open>finally\<close> block leaves it at once.
\<close>

definition try_except_finally ::
  "('b, 'v) selenium \<Rightarrow> (exn + unit) \<times> ('b, 'v) world \<Rightarrow> (exn + unit) \<times> ('b, 'v) world" where
  "try_except_finally d body =
     (case body of (r, w3) \<Rightarrow>
        (case (case r of
                 Inl e \<Rightarrow>
                   if is_Exception e
                   then (None, logger_error ''Main''
                                 ''An error occurred during browser automation: %s'' [ArgExn e] w3)
                   else (Some e, w3)
               | Inr x \<Rightarrow> (None, w3)) of
           (pending, w4) \<Rightarrow>
             (case quit_driver d w4 of
                (Inl e', w5) \<Rightarrow> (Inl e', w5)
              | (Inr u, w5) \<Rightarrow>
                  (case pending of
                     Some e \<Rightarrow> (Inl e, logger_info ''Main'' ''Browser automation completed.'' [] w5)
                   | None \<Rightarrow> (Inr (), logger_info ''Main'' ''Browser automation completed.'' [] w5)))))"

text \<open>
  script2.py, \<open>main\<close>. The source passes two string literals to \<open>login_platonus\<close>, an
  account name and its password; they are arguments here. \<open>Options()\<close> is an options
  object without arguments.
\<close>

definition script2_main ::
  "('b, 'v) selenium \<Rightarrow> string \<Rightarrow> string \<Rightarrow> ('b, 'v) world
     \<Rightarrow> (exn + unit) \<times> ('b, 'v) world" where
  "script2_main d login password w =
     (case initialize_driver script2_default_options d (Some [])
             (logger_info ''Main'' ''Starting browser automation...'' [] w) of
        (Inl e, w2) \<Rightarrow> (Inl e, w2)
      | (Inr u, w2) \<Rightarrow> try_except_finally d (login_platonus d login password w2))"

definition script1_main ::
  "('b, 'v) selenium \<Rightarrow> ('b, 'v) world \<Rightarrow> (exn + unit) \<times> ('b, 'v) world" where
  "script1_main d w =
     (case initialize_driver script1_default_options d (Some [])
             (logger_info ''Main'' ''Starting browser automation...'' [] w) of
        (Inl e, w2) \<Rightarrow> (Inl e, w2)
      | (Inr u, w2) \<Rightarrow>
          try_except_finally d
            (and_then (perform_google_search d ''OpenAI'' w2) (\<lambda>u w3.
             and_then (wait d (PyInt 5) w3) (\<lambda>u w4. scroll_to_bottom d w4))))"

section \<open>A scripted browser\<close>

text \<open>
  One concrete library, on which the functions above can be evaluated: a browser showing
  a single static page. A bounded wait on it holds or times out at once; clicking leads
  to the \<open>sb_landing\<close> address; every call on a closed session raises, \<open>quit\<close> included.
\<close>

record scripted =
  sb_alive :: bool
  sb_location :: string
  sb_present :: "string list"
  sb_clickable :: "string list"
  sb_typed :: "(string \<times> string) list"
  sb_landing :: string

fun contains :: "string \<Rightarrow> string \<Rightarrow> bool" where
  "contains p [] = (p = [])"
| "contains p (c # cs) = (prefix p (c # cs) \<or> contains p cs)"

definition no_session :: exn where
  "no_session = WebDriverException ''invalid session id''"

definition sb_holds :: "condition \<Rightarrow> scripted \<Rightarrow> string option" where
  "sb_holds c b =
     (case c of
        presence_of_element_located (ById i) \<Rightarrow> if i \<in> set (sb_present b) then Some i else None
      | element_to_be_clickable (ById i) \<Rightarrow> if i \<in> set (sb_clickable b) then Some i else None
      | url_contains s \<Rightarrow> if contains s (sb_location b) then Some ''True'' else None)"

definition scripted_browser :: "(scripted, string) selenium" where
  "scripted_browser =
     \<lparr>drv_Chrome = (\<lambda>os b. (Inr (), b\<lparr>sb_alive := True\<rparr>)),
      drv_get = (\<lambda>url b. if sb_alive b then (Inr (), b\<lparr>sb_location := url\<rparr>)
                           else (Inl no_session, b)),
      drv_implicitly_wait = (\<lambda>v b. if sb_alive b then (Inr (), b) else (Inl no_session, b)),
      drv_quit = (\<lambda>b. if sb_alive b then (Inr (), b\<lparr>sb_alive := False\<rparr>)
                       else (Inl no_session, b)),
      drv_execute_script = (\<lambda>s as b. if sb_alive b then (Inr PyNone, b)
                                       else (Inl no_session, b)),
      drv_until = (\<lambda>t c b. if sb_alive b
                            then (case sb_holds c b of
                                    Some v \<Rightarrow> (Inr v, b)
                                  | None \<Rightarrow> (Inl (TimeoutException []), b))
                            else (Inl no_session, b)),
      drv_send_keys = (\<lambda>v keys b. if sb_alive b
                                   then (Inr (), b\<lparr>sb_typed := sb_typed b @ [(v, keys)]\<rparr>)
                                   else (Inl no_session, b)),
      drv_click = (\<lambda>v b. if sb_alive b then (Inr (), b\<lparr>sb_location := sb_landing b\<rparr>)
                          else (Inl no_session, b))\<rparr>"

definition portal :: scripted where
  "portal = \<lparr>sb_alive = True, sb_location = [],
             sb_present = [''login_input'', ''pass_input'', ''Submit1''],
             sb_clickable = [''Submit1''], sb_typed = [],
             sb_landing = ''https://platonus.iitu.edu.kz/dashboard''\<rparr>"

definition start :: "scripted \<Rightarrow> (scripted, string) world" where
  "start b = \<lparr>browser = b, trace = [], log = []\<rparr>"

section \<open>Events of one call, and the words of the specification\<close>

text \<open>The library calls made between two program states, in order.\<close>

definition new_events :: "('b, 'v) world \<Rightarrow> ('b, 'v) world \<Rightarrow> 'v event list" where
  "new_events w w' = drop (length (trace w)) (trace w')"

text \<open>The bounded waits among a list of events that returned, and those that raised.\<close>

fun succeeded_waits :: "'v event list \<Rightarrow> (nat \<times> condition) list" where
  "succeeded_waits [] = []"
| "succeeded_waits ((CallUntil t c, None) # evs) = (t, c) # succeeded_waits evs"
| "succeeded_waits (ev # evs) = succeeded_waits evs"

fun failed_waits :: "'v event list \<Rightarrow> (nat \<times> condition \<times> exn) list" where
  "failed_waits [] = []"
| "failed_waits ((CallUntil t c, Some e) # evs) = (t, c, e) # failed_waits evs"
| "failed_waits (ev # evs) = failed_waits evs"

text \<open>
  The specification's wording, kept apart from the guards of the source: a URL with a
  recognized scheme, and the three kinds of wait durations it distinguishes. A number
  is a boolean (in Python \<open>True\<close> is the integer 1), an integer, a float other than NaN,
  or an instance of another numeric class; NaN, which is not a number, is non-numeric
  with every value that is not a number. Every value is in exactly one of the three
  kinds.
\<close>

definition spec_recognized_scheme :: "string \<Rightarrow> bool" where
  "spec_recognized_scheme s = (prefix ''http://'' s \<or> prefix ''https://'' s)"

fun spec_non_negative_number :: "pyval \<Rightarrow> bool" where
  "spec_non_negative_number (PyBool b) = True"
| "spec_non_negative_number (PyInt i) = (0 \<le> i)"
| "spec_non_negative_number (PyFloat (Finite x)) = (0 \<le> x)"
| "spec_non_negative_number (PyFloat PosInf) = True"
| "spec_non_negative_number (PyNumber c x) = (0 \<le> x)"
| "spec_non_negative_number v = False"

fun spec_negative_number :: "pyval \<Rightarrow> bool" where
  "spec_negative_number (PyInt i) = (i < 0)"
| "spec_negative_number (PyFloat (Finite x)) = (x < 0)"
| "spec_negative_number (PyFloat NegInf) = True"
| "spec_negative_number (PyNumber c x) = (x < 0)"
| "spec_negative_number v = False"

fun spec_non_numeric :: "pyval \<Rightarrow> bool" where
  "spec_non_numeric PyNone = True"
| "spec_non_numeric (PyFloat NaN) = True"
| "spec_non_numeric (PyStr s) = True"
| "spec_non_numeric (PyObject c) = True"
| "spec_non_numeric v = False"

text \<open>
  The runs of the login flow: the result and the events of each of its nine ways to end.
\<close>

inductive login_run :: "string \<Rightarrow> string \<Rightarrow> exn + unit \<Rightarrow> 'v event list \<Rightarrow> bool"
  for l :: string and p :: string where
  navigation_failed:
    "login_run l p (Inl e) [(CallGet portal_url, Some e)]"
| login_field_missing:
    "login_run l p (Inl e) [(CallGet portal_url, None), (CallUntil 10 login_field, Some e)]"
| login_not_typed:
    "login_run l p (Inl e)
       [(CallGet portal_url, None), (CallUntil 10 login_field, None),
        (CallSendKeys v1 l, Some e)]"
| pass_field_missing:
    "login_run l p (Inl e)
       [(CallGet portal_url, None), (CallUntil 10 login_field, None),
        (CallSendKeys v1 l, None), (CallUntil 10 pass_field, Some e)]"
| pass_not_typed:
    "login_run l p (Inl e)
       [(CallGet portal_url, None), (CallUntil 10 login_field, None),
        (CallSendKeys v1 l, None), (CallUntil 10 pass_field, None),
        (CallSendKeys v2 p, Some e)]"
| submit_not_clickable:
    "login_run l p (Inl e)
       [(CallGet portal_url, None), (CallUntil 10 login_field, None),
        (CallSendKeys v1 l, None), (CallUntil 10 pass_field, None),
        (CallSendKeys v2 p, None), (CallUntil 10 submit_button, Some e)]"
| click_failed:
    "login_run l p (Inl e)
       [(CallGet portal_url, None), (CallUntil 10 login_field, None),
        (CallSendKeys v1 l, None), (CallUntil 10 pass_field, None),
        (CallSendKeys v2 p, None), (CallUntil 10 submit_button, None),
        (CallClick v3, Some e)]"
| dashboard_not_reached:
    "login_run l p (Inl e)
       [(CallGet portal_url, None), (CallUntil 10 login_field, None),
        (CallSendKeys v1 l, None), (CallUntil 10 pass_field, None),
        (CallSendKeys v2 p, None), (CallUntil 10 submit_button, None),
        (CallClick v3, None), (CallUntil 10 dashboard, Some e)]"
| logged_in:
    "login_run l p (Inr ())
       [(CallGet portal_url, None), (CallUntil 10 login_field, None),
        (CallSendKeys v1 l, None), (CallUntil 10 pass_field, None),
        (CallSendKeys v2 p, None), (CallUntil 10 submit_button, None),
        (CallClick v3, None), (CallUntil 10 dashboard, None)]"

text \<open>
  The same nine ways to end, read off the library: from the browser state \<open>b\<close> the
  library answers each call of the flow as the premises say; the flow's result, its
  events and the final browser state are those of the conclusion. The value a wait
  returns is the one the next injection or click is applied to.
\<close>

inductive login_outcome ::
  "('b, 'v) selenium \<Rightarrow> string \<Rightarrow> string \<Rightarrow> 'b \<Rightarrow> exn + unit \<Rightarrow> 'v event list \<Rightarrow> 'b \<Rightarrow> bool"
  for d :: "('b, 'v) selenium" and l :: string and p :: string and b :: 'b where
  get_raised:
    "drv_get d portal_url b = (Inl e, b1) \<Longrightarrow>
     login_outcome d l p b (Inl e) [(CallGet portal_url, Some e)] b1"
| wait1_raised:
    "drv_get d portal_url b = (Inr u1, b1) \<Longrightarrow>
     drv_until d 10 login_field b1 = (Inl e, b2) \<Longrightarrow>
     login_outcome d l p b (Inl e)
       [(CallGet portal_url, None), (CallUntil 10 login_field, Some e)] b2"
| type1_raised:
    "drv_get d portal_url b = (Inr u1, b1) \<Longrightarrow>
     drv_until d 10 login_field b1 = (Inr v1, b2) \<Longrightarrow>
     drv_send_keys d v1 l b2 = (Inl e, b3) \<Longrightarrow>
     login_outcome d l p b (Inl e)
       [(CallGet portal_url, None), (CallUntil 10 login_field, None),
        (CallSendKeys v1 l, Some e)] b3"
| wait2_raised:
    "drv_get d portal_url b = (Inr u1, b1) \<Longrightarrow>
     drv_until d 10 login_field b1 = (Inr v1, b2) \<Longrightarrow>
     drv_send_keys d v1 l b2 = (Inr u2, b3) \<Longrightarrow>
     drv_until d 10 pass_field b3 = (Inl e, b4) \<Longrightarrow>
     login_outcome d l p b (Inl e)
       [(CallGet portal_url, None), (CallUntil 10 login_field, None),
        (CallSendKeys v1 l, None), (CallUntil 10 pass_field, Some e)] b4"
| type2_raised:
    "drv_get d portal_url b = (Inr u1, b1) \<Longrightarrow>
     drv_until d 10 login_field b1 = (Inr v1, b2) \<Longrightarrow>
     drv_send_keys d v1 l b2 = (Inr u2, b3) \<Longrightarrow>
     drv_until d 10 pass_field b3 = (Inr v2, b4) \<Longrightarrow>
     drv_send_keys d v2 p b4 = (Inl e, b5) \<Longrightarrow>
     login_outcome d l p b (Inl e)
       [(CallGet portal_url, None), (CallUntil 10 login_field, None),
        (CallSendKeys v1 l, None), (CallUntil 10 pass_field, None),
        (CallSendKeys v2 p, Some e)] b5"
| wait3_raised:
    "drv_get d portal_url b = (Inr u1, b1) \<Longrightarrow>
     drv_until d 10 login_field b1 = (Inr v1, b2) \<Longrightarrow>
     drv_send_keys d v1 l b2 = (Inr u2, b3) \<Longrightarrow>
     drv_until d 10 pass_field b3 = (Inr v2, b4) \<Longrightarrow>
     drv_send_keys d v2 p b4 = (Inr u3, b5) \<Longrightarrow>
     drv_until d 10 submit_button b5 = (Inl e, b6) \<Longrightarrow>
     login_outcome d l p b (Inl e)
       [(CallGet portal_url, None), (CallUntil 10 login_field, None),
        (CallSendKeys v1 l, None), (CallUntil 10 pass_field, None),
        (CallSendKeys v2 p, None), (CallUntil 10 submit_button, Some e)] b6"
| click_raised:
    "drv_get d portal_url b = (Inr u1, b1) \<Longrightarrow>
     drv_until d 10 login_field b1 = (Inr v1, b2) \<Longrightarrow>
     drv_send_keys d v1 l b2 = (Inr u2, b3) \<Longrightarrow>
     drv_until d 10 pass_field b3 = (Inr v2, b4) \<Longrightarrow>
     drv_send_keys d v2 p b4 = (Inr u3, b5) \<Longrightarrow>
     drv_until d 10 submit_button b5 = (Inr v3, b6) \<Longrightarrow>
     drv_click d v3 b6 = (Inl e, b7) \<Longrightarrow>
     login_outcome d l p b (Inl e)
       [(CallGet portal_url, None), (CallUntil 10 login_field, None),
        (CallSendKeys v1 l, None), (CallUntil 10 pass_field, None),
        (CallSendKeys v2 p, None), (CallUntil 10 submit_button, None),
        (CallClick v3, Some e)] b7"
| wait4_raised:
    "drv_get d portal_url b = (Inr u1, b1) \<Longrightarrow>
     drv_until d 10 login_field b1 = (Inr v1, b2) \<Longrightarrow>
     drv_send_keys d v1 l b2 = (Inr u2, b3) \<Longrightarrow>
     drv_until d 10 pass_field b3 = (Inr v2, b4) \<Longrightarrow>
     drv_send_keys d v2 p b4 = (Inr u3, b5) \<Longrightarrow>
     drv_until d 10 submit_button b5 = (Inr v3, b6) \<Longrightarrow>
     drv_click d v3 b6 = (Inr u4, b7) \<Longrightarrow>
     drv_until d 10 dashboard b7 = (Inl e, b8) \<Longrightarrow>
     login_outcome d l p b (Inl e)
       [(CallGet portal_url, None), (CallUntil 10 login_field, None),
        (CallSendKeys v1 l, None), (CallUntil 10 pass_field, None),
        (CallSendKeys v2 p, None), (CallUntil 10 submit_button, None),
        (CallClick v3, None), (CallUntil 10 dashboard, Some e)] b8"
| all_returned:
    "drv_get d portal_url b = (Inr u1, b1) \<Longrightarrow>
     drv_until d 10 login_field b1 = (Inr v1, b2) \<Longrightarrow>
     drv_send_keys d v1 l b2 = (Inr u2, b3) \<Longrightarrow>
     drv_until d 10 pass_field b3 = (Inr v2, b4) \<Longrightarrow>
     drv_send_keys d v2 p b4 = (Inr u3, b5) \<Longrightarrow>
     drv_until d 10 submit_button b5 = (Inr v3, b6) \<Longrightarrow>
     drv_click d v3 b6 = (Inr u4, b7) \<Longrightarrow>
     drv_until d 10 dashboard b7 = (Inr v4, b8) \<Longrightarrow>
     login_outcome d l p b (Inr ())
       [(CallGet portal_url, None), (CallUntil 10 login_field, None),
        (CallSendKeys v1 l, None), (CallUntil 10 pass_field, None),
        (CallSendKeys v2 p, None), (CallUntil 10 submit_button, None),
        (CallClick v3, None), (CallUntil 10 dashboard, None)] b8"

text \<open>
  \<open>emits t res Q\<close>: the computation extended the trace \<open>t\<close> by events that, with its
  result and the browser state it ends in, satisfy \<open>Q\<close>.
\<close>

definition emits ::
  "'v event list \<Rightarrow> (exn + 'a) \<times> ('b, 'v) world
     \<Rightarrow> (exn + 'a \<Rightarrow> 'v event list \<Rightarrow> 'b \<Rightarrow> bool) \<Rightarrow> bool" where
  "emits t res Q = (\<exists>evs. trace (snd res) = t @ evs \<and> Q (fst res) evs (browser (snd res)))"

text \<open>
  What it means for a method to log and propagate the errors of the library.
  \<open>logged_last\<close>: the last log record is the method's error record for \<open>e\<close>.
  \<open>relays n f c lib w res\<close>, where \<open>lib\<close> is the library's answer to the call \<open>c\<close> in the
  browser state of \<open>w\<close>: the method made that call and no other, left the browser as the
  library did, and when the library raised \<open>e\<close> the method raised the same \<open>e\<close>, having
  logged it if it is an instance of \<open>Exception\<close>; when the library returned \<open>x\<close> the
  method returned \<open>x\<close>. \<open>rejects n f e w res\<close>: the method raised the error \<open>e\<close> of its
  own guard and logged it, without any library call.
\<close>

definition logged_last :: "string \<Rightarrow> string \<Rightarrow> exn \<Rightarrow> log_record list \<Rightarrow> bool" where
  "logged_last n f e lg =
     (lg \<noteq> [] \<and>
      last lg = \<lparr>logger_name = n, levelname = ERROR, msg = f, args = [ArgExn e]\<rparr>)"

definition relays ::
  "string \<Rightarrow> string \<Rightarrow> 'v call \<Rightarrow> (exn + 'a) \<times> 'b \<Rightarrow> ('b, 'v) world
     \<Rightarrow> (exn + 'a) \<times> ('b, 'v) world \<Rightarrow> bool" where
  "relays n f c lib w res =
     (new_events w (snd res) = [(c, outcome (fst lib))] \<and>
      browser (snd res) = snd lib \<and>
      (case fst lib of
         Inl e \<Rightarrow> fst res = Inl e \<and> (is_Exception e \<longrightarrow> logged_last n f e (log (snd res)))
       | Inr x \<Rightarrow> fst res = Inr x))"

definition rejects ::
  "string \<Rightarrow> string \<Rightarrow> exn \<Rightarrow> ('b, 'v) world \<Rightarrow> (exn + 'c) \<times> ('b, 'v) world \<Rightarrow> bool" where
  "rejects n f e w res =
     (fst res = Inl e \<and> new_events w (snd res) = [] \<and> browser (snd res) = browser w \<and>
      logged_last n f e (log (snd res)))"

section \<open>Stepping through the calls of a method\<close>

lemma emits_return:
  assumes "trace w = t" and "Q r [] (browser w)"
  shows "emits t (r, w) Q"
  using assms by (simp add: emits_def)

lemma emits_except:
  assumes "emits t res Q"
  shows "emits t (except_Exception n f res) Q"
proof (cases res)
  case (Pair r w')
  with assms show ?thesis
    by (cases r) (simp_all add: emits_def except_Exception_def logger_error_def)
qed

lemma emits_invoke:
  assumes "trace w = t"
    and "\<And>e b'. f (browser w) = (Inl e, b') \<Longrightarrow> Q (Inl e) [(c, Some e)] b'"
    and "\<And>x w1. f (browser w) = (Inr x, browser w1) \<Longrightarrow> trace w1 = t @ [(c, None)] \<Longrightarrow>
           emits (t @ [(c, None)]) (k x w1) (\<lambda>r evs. Q r ((c, None) # evs))"
  shows "emits t (and_then (invoke c f w) k) Q"
proof (cases "f (browser w)")
  case (Pair r b')
  show ?thesis
  proof (cases r)
    case (Inl e)
    with Pair assms(1) assms(2) [of e b'] show ?thesis
      by (simp add: emits_def and_then_def invoke_def outcome_def)
  next
    case (Inr x)
    let ?w1 = "w\<lparr>browser := b', trace := trace w @ [(c, None)]\<rparr>"
    have "f (browser w) = (Inr x, browser ?w1)" using Pair Inr by simp
    moreover have "trace ?w1 = t @ [(c, None)]" using assms(1) by simp
    ultimately
    have "emits (t @ [(c, None)]) (k x ?w1) (\<lambda>r evs. Q r ((c, None) # evs))"
      by (rule assms(3))
    moreover have "and_then (invoke c f w) k = k x ?w1"
      using Pair Inr by (simp add: and_then_def invoke_def outcome_def)
    ultimately show ?thesis by (auto simp: emits_def)
  qed
qed

lemma emits_open_url:
  assumes "trace w = t" and "prefix ''http'' s"
    and "\<And>e b'. drv_get d s (browser w) = (Inl e, b') \<Longrightarrow> Q (Inl e) [(CallGet s, Some e)] b'"
    and "\<And>u w1. drv_get d s (browser w) = (Inr u, browser w1) \<Longrightarrow>
           trace w1 = t @ [(CallGet s, None)] \<Longrightarrow>
           emits (t @ [(CallGet s, None)]) (k () w1) (\<lambda>r evs. Q r ((CallGet s, None) # evs))"
  shows "emits t (and_then (open_url d (PyStr s) w) k) Q"
proof (cases "drv_get d s (browser w)")
  case (Pair r b')
  have guard: "isinstance_str (PyStr s)" "startswith (PyStr s) ''http''" "str_of (PyStr s) = s"
    using assms(2) by (simp_all add: isinstance_str_def startswith_def str_of_def)
  show ?thesis
  proof (cases r)
    case (Inl e)
    with Pair assms(1) assms(3) [of e b'] guard show ?thesis
      by (simp add: emits_def and_then_def open_url_def invoke_def outcome_def
            except_Exception_def logger_error_def)
  next
    case (Inr u)
    let ?w1 = "logger_info ''WebDriverManager'' ''Opened URL: %s'' [ArgVal (PyStr s)]
                 (w\<lparr>browser := b', trace := trace w @ [(CallGet s, None)]\<rparr>)"
    have "drv_get d s (browser w) = (Inr u, browser ?w1)"
      using Pair Inr by (simp add: logger_info_def)
    moreover have "trace ?w1 = t @ [(CallGet s, None)]"
      using assms(1) by (simp add: logger_info_def)
    ultimately
    have "emits (t @ [(CallGet s, None)]) (k () ?w1) (\<lambda>r evs. Q r ((CallGet s, None) # evs))"
      by (rule assms(4))
    moreover have "and_then (open_url d (PyStr s) w) k = k () ?w1"
      using Pair Inr guard
      by (simp add: and_then_def open_url_def invoke_def outcome_def except_Exception_def)
    ultimately show ?thesis by (auto simp: emits_def)
  qed
qed

lemma trace_logger_info [simp]: "trace (logger_info n m as w) = trace w"
  by (simp add: logger_info_def)

lemma browser_logger_info [simp]: "browser (logger_info n m as w) = browser w"
  by (simp add: logger_info_def)

lemma login_platonus_emits:
  "emits (trace w) (login_platonus d l p w) (login_outcome d l p (browser w))"
  unfolding login_platonus_def
  apply (rule emits_except)
  apply (rule emits_open_url)
     apply simp
    apply (simp add: portal_url_def)
   apply (erule get_raised)
  apply (rule emits_invoke)
    apply simp
   apply (simp only: browser_logger_info)?
   apply (rule wait1_raised; assumption)
  apply (rule emits_invoke)
    apply simp
   apply (simp only: browser_logger_info)?
   apply (rule type1_raised; assumption)
  apply (rule emits_invoke)
    apply simp
   apply (simp only: browser_logger_info)?
   apply (rule wait2_raised; assumption)
  apply (rule emits_invoke)
    apply simp
   apply (simp only: browser_logger_info)?
   apply (rule type2_raised; assumption)
  apply (rule emits_invoke)
    apply simp
   apply (simp only: browser_logger_info)?
   apply (rule wait3_raised; assumption)
  apply (rule emits_invoke)
    apply simp
   apply (simp only: browser_logger_info)?
   apply (rule click_raised; assumption)
  apply (rule emits_invoke)
    apply simp
   apply (simp only: browser_logger_info)?
   apply (rule wait4_raised; assumption)
  apply (rule emits_return)
   apply simp
  apply (simp only: browser_logger_info)?
  apply (rule all_returned; assumption)
  done

lemma login_outcome_run:
  "login_outcome d l p b r evs b' \<Longrightarrow> login_run l p r evs"
  by (induction rule: login_outcome.induct) (rule login_run.intros)+

lemma login_platonus_outcome:
  assumes "login_platonus d l p w = (r, w')"
  shows "trace w' = trace w @ new_events w w'"
    and "login_outcome d l p (browser w) r (new_events w w') (browser w')"
  using login_platonus_emits [of w d l p] assms
  by (auto simp: emits_def new_events_def)

lemma login_platonus_run:
  assumes "login_platonus d l p w = (r, w')"
  shows "trace w' = trace w @ new_events w w'" and "login_run l p r (new_events w w')"
  using login_platonus_outcome [OF assms] by (simp_all add: login_outcome_run)

lemma new_events_append [simp]:
  "trace w' = trace w @ evs \<Longrightarrow> new_events w w' = evs"
  by (simp add: new_events_def)

lemma invoke_eq:
  "invoke c f w =
     (fst (f (browser w)),
      w\<lparr>browser := snd (f (browser w)),
        trace := trace w @ [(c, outcome (fst (f (browser w))))]\<rparr>)"
  by (simp add: invoke_def split: prod.split)

lemma fst_except [simp]: "fst (except_Exception n f res) = fst res"
  by (cases res; cases "fst res") (auto simp: except_Exception_def)

lemma trace_except [simp]: "trace (snd (except_Exception n f res)) = trace (snd res)"
  by (cases res; cases "fst res") (auto simp: except_Exception_def logger_error_def)

lemma browser_except [simp]: "browser (snd (except_Exception n f res)) = browser (snd res)"
  by (cases res; cases "fst res") (auto simp: except_Exception_def logger_error_def)

lemma except_logged:
  assumes "fst res = Inl e" and "is_Exception e"
  shows "log (snd (except_Exception n f res)) =
           log (snd res) @ [\<lparr>logger_name = n, levelname = ERROR, msg = f, args = [ArgExn e]\<rparr>]"
  using assms by (cases res) (simp add: except_Exception_def logger_error_def)

lemma open_url_accepted:
  assumes "prefix ''http'' s"
  shows "fst (open_url d (PyStr s) w) = fst (drv_get d s (browser w))"
    and "browser (snd (open_url d (PyStr s) w)) = snd (drv_get d s (browser w))"
    and "trace (snd (open_url d (PyStr s) w)) =
           trace w @ [(CallGet s, outcome (fst (drv_get d s (browser w))))]"
  using assms
  by (simp_all add: open_url_def isinstance_str_def startswith_def str_of_def invoke_eq
        logger_info_def split: sum.split)

lemma open_url_rejected:
  assumes "\<not> isinstance_str url \<or> \<not> startswith url ''http''"
  shows "open_url d url w =
          (Inl (ValueError ''Invalid URL provided''),
           logger_error ''WebDriverManager'' ''Error opening URL: %s''
             [ArgExn (ValueError ''Invalid URL provided'')] w)"
  using assms
  by (auto simp: open_url_def except_Exception_def ValueError_def)

lemma wait_accepted:
  assumes "isinstance_int_float v" and "\<not> lt_zero v"
  shows "fst (wait d v w) = fst (drv_implicitly_wait d v (browser w))"
    and "browser (snd (wait d v w)) = snd (drv_implicitly_wait d v (browser w))"
    and "trace (snd (wait d v w)) =
           trace w @ [(CallImplicitlyWait v, outcome (fst (drv_implicitly_wait d v (browser w))))]"
  using assms
  by (simp_all add: wait_def invoke_eq logger_info_def split: sum.split)

lemma wait_rejected:
  assumes "\<not> isinstance_int_float v \<or> lt_zero v"
  shows "wait d v w =
          (Inl (ValueError ''Wait time must be a non-negative number''),
           logger_error ''WebDriverManager'' ''Error during wait: %s''
             [ArgExn (ValueError ''Wait time must be a non-negative number'')] w)"
  using assms
  by (auto simp: wait_def except_Exception_def ValueError_def)

lemma wait_guard_spec:
  "(isinstance_int_float v \<and> \<not> lt_zero v) =
     ((spec_non_negative_number v \<and> (\<forall>c x. v \<noteq> PyNumber c x)) \<or> v = PyFloat NaN)"
  by (induction v rule: lt_zero.induct) (auto simp: isinstance_int_float_def)

lemma spec_kinds_partition:
  "(spec_non_negative_number v \<or> spec_negative_number v \<or> spec_non_numeric v) \<and>
   \<not> (spec_non_negative_number v \<and> spec_negative_number v) \<and>
   \<not> (spec_non_negative_number v \<and> spec_non_numeric v) \<and>
   \<not> (spec_negative_number v \<and> spec_non_numeric v)"
  by (induction v rule: lt_zero.induct) auto

lemma wait_guard_spec_rejected:
  "(\<not> isinstance_int_float v \<or> lt_zero v) =
     (spec_negative_number v \<or> (spec_non_numeric v \<and> v \<noteq> PyFloat NaN) \<or>
      (\<exists>c x. v = PyNumber c x))"
  by (induction v rule: lt_zero.induct) (auto simp: isinstance_int_float_def)

lemmas scripted_defs = scripted_browser_def start_def portal_def no_session_def
  TimeoutException_def WebDriverException_def ValueError_def sb_holds_def

lemmas run_defs = except_Exception_def invoke_def and_then_def logger_info_def logger_error_def
  outcome_def

section \<open>Navigation\<close>

text \<open>
  Claim C10. For every input of \<open>open_url\<close> that is not a string at all, \<open>open_url\<close>
  raises the invalid-input error (\<open>ValueError\<close>) before any interaction with the browser:
  the browser state is unchanged and no library call is made; only the error is logged.
\<close>

theorem open_url_rejects_non_string:
  assumes "\<forall>s. url \<noteq> PyStr s" and "open_url d url w = (r, w')"
  shows "r = Inl (ValueError ''Invalid URL provided'') \<and> browser w' = browser w \<and>
         new_events w w' = [] \<and>
         log w' = log w @ [\<lparr>logger_name = ''WebDriverManager'', levelname = ERROR,
                            msg = ''Error opening URL: %s'',
                            args = [ArgExn (ValueError ''Invalid URL provided'')]\<rparr>]"
proof -
  from assms(1) have "\<not> isinstance_str url"
    by (cases url) (simp_all add: isinstance_str_def)
  then have "open_url d url w =
      (Inl (ValueError ''Invalid URL provided''),
       logger_error ''WebDriverManager'' ''Error opening URL: %s''
         [ArgExn (ValueError ''Invalid URL provided'')] w)"
    by (simp add: open_url_rejected)
  with assms(2) show ?thesis
    by (auto simp: logger_error_def new_events_def)
qed

theorem open_url_rejects_non_string_witness:
  "(\<forall>s. PyInt 3 \<noteq> PyStr s) \<and>
   open_url scripted_browser (PyInt 3) (start portal) =
     (Inl (ValueError ''Invalid URL provided''),
      \<lparr>browser = portal, trace = [],
       log = [\<lparr>logger_name = ''WebDriverManager'', levelname = ERROR,
               msg = ''Error opening URL: %s'',
               args = [ArgExn (ValueError ''Invalid URL provided'')]\<rparr>]\<rparr>) \<and>
   new_events (start portal)
     \<lparr>browser = portal, trace = [],
      log = [\<lparr>logger_name = ''WebDriverManager'', levelname = ERROR,
              msg = ''Error opening URL: %s'',
              args = [ArgExn (ValueError ''Invalid URL provided'')]\<rparr>]\<rparr> = []"
proof -
  have run: "open_url scripted_browser (PyInt 3) (start portal) =
     (Inl (ValueError ''Invalid URL provided''),
      \<lparr>browser = portal, trace = [],
       log = [\<lparr>logger_name = ''WebDriverManager'', levelname = ERROR,
               msg = ''Error opening URL: %s'',
               args = [ArgExn (ValueError ''Invalid URL provided'')]\<rparr>]\<rparr>)"
    by (simp add: open_url_def isinstance_str_def run_defs start_def ValueError_def)
  have hyp: "\<forall>s. PyInt 3 \<noteq> PyStr s" by simp
  from open_url_rejects_non_string [OF hyp run] hyp run show ?thesis by simp
qed

text \<open>
  Claim C4, as amended. The guard of \<open>open_url\<close> is a test of the prefix \<open>http\<close>, not of
  a URL scheme. For every string beginning with \<open>http\<close>, \<open>open_url\<close> calls the browser's
  load operation exactly once with that string, and its result and the new browser state
  are those of that call. For every other string it raises \<open>ValueError\<close> without
  contacting the browser.
\<close>

theorem open_url_prefix_guard:
  assumes "open_url d (PyStr s) w = (r, w')"
  shows "(prefix ''http'' s \<longrightarrow>
            new_events w w' = [(CallGet s, outcome r)] \<and>
            drv_get d s (browser w) = (r, browser w')) \<and>
         (\<not> prefix ''http'' s \<longrightarrow>
            r = Inl (ValueError ''Invalid URL provided'') \<and>
            browser w' = browser w \<and> new_events w w' = [])"
proof (cases "prefix ''http'' s")
  case True
  from open_url_accepted [OF True, of d w] assms
  have "r = fst (drv_get d s (browser w))" "browser w' = snd (drv_get d s (browser w))"
    "trace w' = trace w @ [(CallGet s, outcome (fst (drv_get d s (browser w))))]"
    by simp_all
  with True show ?thesis by (simp add: new_events_def)
next
  case False
  then have "\<not> isinstance_str (PyStr s) \<or> \<not> startswith (PyStr s) ''http''"
    by (simp add: startswith_def)
  from open_url_rejected [OF this, of d w] assms False show ?thesis
    by (auto simp: logger_error_def new_events_def)
qed

theorem open_url_prefix_guard_witness:
  "open_url scripted_browser (PyStr ''https://example.com'') (start portal) =
     (Inr (), \<lparr>browser = portal\<lparr>sb_location := ''https://example.com''\<rparr>,
               trace = [(CallGet ''https://example.com'', None)],
               log = [\<lparr>logger_name = ''WebDriverManager'', levelname = INFO,
                       msg = ''Opened URL: %s'',
                       args = [ArgVal (PyStr ''https://example.com'')]\<rparr>]\<rparr>) \<and>
   prefix ''http'' ''https://example.com'' \<and>
   drv_get scripted_browser ''https://example.com'' portal =
     (Inr (), portal\<lparr>sb_location := ''https://example.com''\<rparr>) \<and>
   open_url scripted_browser (PyStr ''not-a-url'') (start portal) =
     (Inl (ValueError ''Invalid URL provided''),
      \<lparr>browser = portal, trace = [],
       log = [\<lparr>logger_name = ''WebDriverManager'', levelname = ERROR,
               msg = ''Error opening URL: %s'',
               args = [ArgExn (ValueError ''Invalid URL provided'')]\<rparr>]\<rparr>) \<and>
   \<not> prefix ''http'' ''not-a-url''"
proof -
  have run1: "open_url scripted_browser (PyStr ''https://example.com'') (start portal) =
     (Inr (), \<lparr>browser = portal\<lparr>sb_location := ''https://example.com''\<rparr>,
               trace = [(CallGet ''https://example.com'', None)],
               log = [\<lparr>logger_name = ''WebDriverManager'', levelname = INFO,
                       msg = ''Opened URL: %s'',
                       args = [ArgVal (PyStr ''https://example.com'')]\<rparr>]\<rparr>)"
    by (simp add: open_url_def isinstance_str_def startswith_def str_of_def run_defs
          scripted_defs)
  have run2: "open_url scripted_browser (PyStr ''not-a-url'') (start portal) =
     (Inl (ValueError ''Invalid URL provided''),
      \<lparr>browser = portal, trace = [],
       log = [\<lparr>logger_name = ''WebDriverManager'', levelname = ERROR,
               msg = ''Error opening URL: %s'',
               args = [ArgExn (ValueError ''Invalid URL provided'')]\<rparr>]\<rparr>)"
    by (simp add: open_url_def isinstance_str_def startswith_def str_of_def run_defs
          start_def ValueError_def)
  from open_url_prefix_guard [OF run1] open_url_prefix_guard [OF run2] run1 run2
  show ?thesis by (simp add: start_def)
qed

text \<open>
  The claim as stated fails: \<open>httpfoo\<close> has no scheme at all, yet it passes the guard
  and reaches the browser.
\<close>

theorem open_url_httpfoo_counterexample:
  "\<not> spec_recognized_scheme ''httpfoo'' \<and>
   open_url scripted_browser (PyStr ''httpfoo'') (start portal) =
     (Inr (), \<lparr>browser = portal\<lparr>sb_location := ''httpfoo''\<rparr>,
               trace = [(CallGet ''httpfoo'', None)],
               log = [\<lparr>logger_name = ''WebDriverManager'', levelname = INFO,
                       msg = ''Opened URL: %s'', args = [ArgVal (PyStr ''httpfoo'')]\<rparr>]\<rparr>)"
  by (simp add: spec_recognized_scheme_def open_url_def isinstance_str_def startswith_def
        str_of_def run_defs scripted_defs)

section \<open>Implicit wait\<close>

text \<open>
  Claim C6, as amended. The guard of \<open>wait\<close> is \<open>isinstance(seconds, (int, float))\<close> and
  \<open>seconds < 0\<close>. For every wait duration that is a non-negative number of class \<open>bool\<close>,
  \<open>int\<close> or \<open>float\<close> (positive infinity included), and for NaN, \<open>wait\<close> configures the
  implicit wait with that value, once, and its result and the new browser state are
  those of that library call: it succeeds exactly when the library call does. For every
  negative number, every value that is not a number other than NaN, and every number of
  another class, it fails with the invalid-input error (\<open>ValueError\<close>) and does not touch
  the browser.
\<close>

theorem wait_guard:
  assumes "wait d v w = (r, w')"
  shows "((spec_non_negative_number v \<and> (\<forall>c x. v \<noteq> PyNumber c x)) \<or> v = PyFloat NaN \<longrightarrow>
            new_events w w' = [(CallImplicitlyWait v, outcome r)] \<and>
            drv_implicitly_wait d v (browser w) = (r, browser w')) \<and>
         (spec_negative_number v \<or> (spec_non_numeric v \<and> v \<noteq> PyFloat NaN) \<or>
          (\<exists>c x. v = PyNumber c x) \<longrightarrow>
            r = Inl (ValueError ''Wait time must be a non-negative number'') \<and>
            browser w' = browser w \<and> new_events w w' = []) \<and>
         (r = Inr () \<longleftrightarrow>
            ((spec_non_negative_number v \<and> (\<forall>c x. v \<noteq> PyNumber c x)) \<or> v = PyFloat NaN) \<and>
            fst (drv_implicitly_wait d v (browser w)) = Inr ())"
proof -
  have forwarded: "new_events w w' = [(CallImplicitlyWait v, outcome r)] \<and>
      drv_implicitly_wait d v (browser w) = (r, browser w')"
    if "(spec_non_negative_number v \<and> (\<forall>c x. v \<noteq> PyNumber c x)) \<or> v = PyFloat NaN"
  proof -
    from that have ok: "isinstance_int_float v" "\<not> lt_zero v"
      using wait_guard_spec [of v] by blast+
    from wait_accepted [OF ok, of d w] assms
    have "r = fst (drv_implicitly_wait d v (browser w))"
      "browser w' = snd (drv_implicitly_wait d v (browser w))"
      "trace w' = trace w @ [(CallImplicitlyWait v, outcome r)]"
      by simp_all
    then show ?thesis by simp
  qed
  have refused: "r = Inl (ValueError ''Wait time must be a non-negative number'') \<and>
      browser w' = browser w \<and> new_events w w' = []"
    if "\<not> ((spec_non_negative_number v \<and> (\<forall>c x. v \<noteq> PyNumber c x)) \<or> v = PyFloat NaN)"
  proof -
    from that have "\<not> isinstance_int_float v \<or> lt_zero v"
      using wait_guard_spec [of v] by blast
    from wait_rejected [OF this, of d w] assms
    have "r = Inl (ValueError ''Wait time must be a non-negative number'')"
      and "w' = logger_error ''WebDriverManager'' ''Error during wait: %s''
                 [ArgExn (ValueError ''Wait time must be a non-negative number'')] w"
      by simp_all
    then show ?thesis by (simp add: logger_error_def new_events_def)
  qed
  have classes: "(spec_negative_number v \<or> (spec_non_numeric v \<and> v \<noteq> PyFloat NaN) \<or>
       (\<exists>c x. v = PyNumber c x)) =
      (\<not> ((spec_non_negative_number v \<and> (\<forall>c x. v \<noteq> PyNumber c x)) \<or> v = PyFloat NaN))"
    using wait_guard_spec [of v] wait_guard_spec_rejected [of v] by blast
  show ?thesis
  proof (cases "(spec_non_negative_number v \<and> (\<forall>c x. v \<noteq> PyNumber c x)) \<or> v = PyFloat NaN")
    case True
    from forwarded [OF True] have "fst (drv_implicitly_wait d v (browser w)) = r" by simp
    with True forwarded [OF True] classes show ?thesis by simp
  next
    case False
    with refused [OF False] classes show ?thesis by simp
  qed
qed

theorem wait_guard_witness:
  "wait scripted_browser (PyInt 5) (start portal) =
     (Inr (), \<lparr>browser = portal, trace = [(CallImplicitlyWait (PyInt 5), None)],
               log = [\<lparr>logger_name = ''WebDriverManager'', levelname = INFO,
                       msg = ''Implicit wait for %s seconds.'', args = [ArgVal (PyInt 5)]\<rparr>]\<rparr>) \<and>
   spec_non_negative_number (PyInt 5) \<and>
   drv_implicitly_wait scripted_browser (PyInt 5) portal = (Inr (), portal) \<and>
   wait scripted_browser (PyFloat (Finite (- 1.5))) (start portal) =
     (Inl (ValueError ''Wait time must be a non-negative number''),
      \<lparr>browser = portal, trace = [],
       log = [\<lparr>logger_name = ''WebDriverManager'', levelname = ERROR,
               msg = ''Error during wait: %s'',
               args = [ArgExn (ValueError ''Wait time must be a non-negative number'')]\<rparr>]\<rparr>) \<and>
   spec_negative_number (PyFloat (Finite (- 1.5))) \<and>
   wait scripted_browser (PyStr ''5'') (start portal) =
     (Inl (ValueError ''Wait time must be a non-negative number''),
      \<lparr>browser = portal, trace = [],
       log = [\<lparr>logger_name = ''WebDriverManager'', levelname = ERROR,
               msg = ''Error during wait: %s'',
               args = [ArgExn (ValueError ''Wait time must be a non-negative number'')]\<rparr>]\<rparr>) \<and>
   spec_non_numeric (PyStr ''5'') \<and> PyStr ''5'' \<noteq> PyFloat NaN"
proof -
  have run1: "wait scripted_browser (PyInt 5) (start portal) =
     (Inr (), \<lparr>browser = portal, trace = [(CallImplicitlyWait (PyInt 5), None)],
               log = [\<lparr>logger_name = ''WebDriverManager'', levelname = INFO,
                       msg = ''Implicit wait for %s seconds.'', args = [ArgVal (PyInt 5)]\<rparr>]\<rparr>)"
    by (simp add: wait_def isinstance_int_float_def run_defs scripted_defs)
  have run2: "wait scripted_browser (PyFloat (Finite (- 1.5))) (start portal) =
     (Inl (ValueError ''Wait time must be a non-negative number''),
      \<lparr>browser = portal, trace = [],
       log = [\<lparr>logger_name = ''WebDriverManager'', levelname = ERROR,
               msg = ''Error during wait: %s'',
               args = [ArgExn (ValueError ''Wait time must be a non-negative number'')]\<rparr>]\<rparr>)"
    by (simp add: wait_def isinstance_int_float_def run_defs start_def ValueError_def)
  have run3: "wait scripted_browser (PyStr ''5'') (start portal) =
     (Inl (ValueError ''Wait time must be a non-negative number''),
      \<lparr>browser = portal, trace = [],
       log = [\<lparr>logger_name = ''WebDriverManager'', levelname = ERROR,
               msg = ''Error during wait: %s'',
               args = [ArgExn (ValueError ''Wait time must be a non-negative number'')]\<rparr>]\<rparr>)"
    by (simp add: wait_def isinstance_int_float_def run_defs start_def ValueError_def)
  from wait_guard [OF run1] wait_guard [OF run2] wait_guard [OF run3] run1 run2 run3
  show ?thesis by (simp add: start_def)
qed

text \<open>
  The claim as stated fails three ways. NaN is not a number, yet it passes the guard
  (\<open>NaN < 0\<close> is false) and the implicit wait is configured with it. A non-negative
  \<open>Decimal\<close> is a number, yet it is not an instance of \<open>int\<close> or \<open>float\<close> and is refused.
  And a non-negative integer passes the guard, but on a closed session the library call
  raises, and so does \<open>wait\<close>.
\<close>

theorem wait_guard_counterexample:
  "spec_non_numeric (PyFloat NaN) \<and>
   wait scripted_browser (PyFloat NaN) (start portal) =
     (Inr (), \<lparr>browser = portal, trace = [(CallImplicitlyWait (PyFloat NaN), None)],
               log = [\<lparr>logger_name = ''WebDriverManager'', levelname = INFO,
                       msg = ''Implicit wait for %s seconds.'',
                       args = [ArgVal (PyFloat NaN)]\<rparr>]\<rparr>) \<and>
   spec_non_negative_number (PyNumber ''Decimal'' 5) \<and>
   wait scripted_browser (PyNumber ''Decimal'' 5) (start portal) =
     (Inl (ValueError ''Wait time must be a non-negative number''),
      \<lparr>browser = portal, trace = [],
       log = [\<lparr>logger_name = ''WebDriverManager'', levelname = ERROR,
               msg = ''Error during wait: %s'',
               args = [ArgExn (ValueError ''Wait time must be a non-negative number'')]\<rparr>]\<rparr>) \<and>
   spec_non_negative_number (PyInt 5) \<and>
   wait scripted_browser (PyInt 5) (start (portal\<lparr>sb_alive := False\<rparr>)) =
     (Inl (WebDriverException ''invalid session id''),
      \<lparr>browser = portal\<lparr>sb_alive := False\<rparr>,
       trace = [(CallImplicitlyWait (PyInt 5), Some (WebDriverException ''invalid session id''))],
       log = [\<lparr>logger_name = ''WebDriverManager'', levelname = ERROR,
               msg = ''Error during wait: %s'',
               args = [ArgExn (WebDriverException ''invalid session id'')]\<rparr>]\<rparr>)"
  by (simp add: wait_def isinstance_int_float_def run_defs scripted_defs)

text \<open>
  Claim C9. The guard of \<open>wait\<close> accepts the boolean \<open>True\<close>, an instance of \<open>int\<close> that
  is not below zero: the invalid-input error is not raised and the implicit wait is
  configured with \<open>True\<close>.
\<close>

theorem wait_accepts_True:
  assumes "wait d (PyBool True) w = (r, w')"
  shows "new_events w w' = [(CallImplicitlyWait (PyBool True), outcome r)] \<and>
         drv_implicitly_wait d (PyBool True) (browser w) = (r, browser w')"
proof -
  have ok: "isinstance_int_float (PyBool True)" "\<not> lt_zero (PyBool True)"
    by (simp_all add: isinstance_int_float_def)
  from wait_accepted [OF ok, of d w] assms
  have "r = fst (drv_implicitly_wait d (PyBool True) (browser w))"
    "browser w' = snd (drv_implicitly_wait d (PyBool True) (browser w))"
    "trace w' = trace w @ [(CallImplicitlyWait (PyBool True), outcome r)]"
    by simp_all
  then show ?thesis by simp
qed

theorem wait_accepts_True_witness:
  "wait scripted_browser (PyBool True) (start portal) =
     (Inr (), \<lparr>browser = portal, trace = [(CallImplicitlyWait (PyBool True), None)],
               log = [\<lparr>logger_name = ''WebDriverManager'', levelname = INFO,
                       msg = ''Implicit wait for %s seconds.'',
                       args = [ArgVal (PyBool True)]\<rparr>]\<rparr>) \<and>
   drv_implicitly_wait scripted_browser (PyBool True) portal = (Inr (), portal)"
proof -
  have run: "wait scripted_browser (PyBool True) (start portal) =
     (Inr (), \<lparr>browser = portal, trace = [(CallImplicitlyWait (PyBool True), None)],
               log = [\<lparr>logger_name = ''WebDriverManager'', levelname = INFO,
                       msg = ''Implicit wait for %s seconds.'',
                       args = [ArgVal (PyBool True)]\<rparr>]\<rparr>)"
    by (simp add: wait_def isinstance_int_float_def run_defs scripted_defs)
  from wait_accepts_True [OF run] run show ?thesis by (simp add: start_def)
qed

section \<open>Search\<close>

lemma perform_google_search_run:
  assumes "drv_get d (''https://www.google.com/search?q='' @ query) (browser w) = (r0, b0)"
  shows "fst (perform_google_search d query w) = r0"
    and "browser (snd (perform_google_search d query w)) = b0"
    and "trace (snd (perform_google_search d query w)) =
           trace w @ [(CallGet (''https://www.google.com/search?q='' @ query), outcome r0)]"
proof -
  have guard: "isinstance_str (PyStr (''https://www.google.com/search?q='' @ query))"
    "startswith (PyStr (''https://www.google.com/search?q='' @ query)) ''http''"
    "str_of (PyStr (''https://www.google.com/search?q='' @ query)) =
       ''https://www.google.com/search?q='' @ query"
    by (simp_all add: isinstance_str_def startswith_def str_of_def)
  have "fst (perform_google_search d query w) = r0 \<and>
        browser (snd (perform_google_search d query w)) = b0 \<and>
        trace (snd (perform_google_search d query w)) =
          trace w @ [(CallGet (''https://www.google.com/search?q='' @ query), outcome r0)]"
  proof (cases r0)
    case (Inl e)
    with assms guard show ?thesis
      by (cases "is_Exception e")
         (simp_all add: perform_google_search_def Let_def open_url_def run_defs)
  next
    case (Inr u)
    with assms guard show ?thesis
      by (simp add: perform_google_search_def Let_def open_url_def run_defs)
  qed
  then show "fst (perform_google_search d query w) = r0"
    and "browser (snd (perform_google_search d query w)) = b0"
    and "trace (snd (perform_google_search d query w)) =
           trace w @ [(CallGet (''https://www.google.com/search?q='' @ query), outcome r0)]"
    by blast+
qed

text \<open>
  Claim C8. For every query string, \<open>perform_google_search\<close> navigates to exactly
  \<open>https://www.google.com/search?q=\<close> followed by the query, unchanged: the browser's
  load operation is called once, with that string, and the result of the search is the
  result of that load. The guard of \<open>open_url\<close> therefore never rejects the address, and
  no invalid-URL error comes from it.
\<close>

theorem perform_google_search_navigates:
  assumes "perform_google_search d query w = (r, w')"
  shows "new_events w w' = [(CallGet (''https://www.google.com/search?q='' @ query), outcome r)] \<and>
         drv_get d (''https://www.google.com/search?q='' @ query) (browser w) = (r, browser w')"
proof -
  obtain r0 b0 where get:
    "drv_get d (''https://www.google.com/search?q='' @ query) (browser w) = (r0, b0)"
    by (cases "drv_get d (''https://www.google.com/search?q='' @ query) (browser w)")
  from perform_google_search_run [OF get] assms
  have "r = r0" "browser w' = b0"
    "trace w' = trace w @ [(CallGet (''https://www.google.com/search?q='' @ query), outcome r0)]"
    by simp_all
  with get show ?thesis by simp
qed

theorem perform_google_search_navigates_witness:
  "perform_google_search scripted_browser ''a b&c'' (start portal) =
     (Inr (), \<lparr>browser = portal\<lparr>sb_location := ''https://www.google.com/search?q=a b&c''\<rparr>,
               trace = [(CallGet ''https://www.google.com/search?q=a b&c'', None)],
               log = [\<lparr>logger_name = ''WebDriverManager'', levelname = INFO,
                       msg = ''Opened URL: %s'',
                       args = [ArgVal (PyStr ''https://www.google.com/search?q=a b&c'')]\<rparr>,
                      \<lparr>logger_name = ''BrowserAutomation'', levelname = INFO,
                       msg = ''Performed Google search for query: %s'',
                       args = [ArgVal (PyStr ''a b&c'')]\<rparr>]\<rparr>) \<and>
   drv_get scripted_browser ''https://www.google.com/search?q=a b&c'' portal =
     (Inr (), portal\<lparr>sb_location := ''https://www.google.com/search?q=a b&c''\<rparr>)"
proof -
  have run: "perform_google_search scripted_browser ''a b&c'' (start portal) =
     (Inr (), \<lparr>browser = portal\<lparr>sb_location := ''https://www.google.com/search?q=a b&c''\<rparr>,
               trace = [(CallGet ''https://www.google.com/search?q=a b&c'', None)],
               log = [\<lparr>logger_name = ''WebDriverManager'', levelname = INFO,
                       msg = ''Opened URL: %s'',
                       args = [ArgVal (PyStr ''https://www.google.com/search?q=a b&c'')]\<rparr>,
                      \<lparr>logger_name = ''BrowserAutomation'', levelname = INFO,
                       msg = ''Performed Google search for query: %s'',
                       args = [ArgVal (PyStr ''a b&c'')]\<rparr>]\<rparr>)"
    by (simp add: perform_google_search_def Let_def open_url_def isinstance_str_def
          startswith_def str_of_def run_defs scripted_defs)
  from perform_google_search_navigates [OF run] run show ?thesis by (simp add: start_def)
qed

section \<open>The login flow\<close>

lemma conditions_distinct [simp]:
  "login_field \<noteq> pass_field" "login_field \<noteq> submit_button" "login_field \<noteq> dashboard"
  "pass_field \<noteq> login_field" "pass_field \<noteq> submit_button" "pass_field \<noteq> dashboard"
  "submit_button \<noteq> login_field" "submit_button \<noteq> pass_field" "submit_button \<noteq> dashboard"
  "dashboard \<noteq> login_field" "dashboard \<noteq> pass_field" "dashboard \<noteq> submit_button"
  by (simp_all add: login_field_def pass_field_def submit_button_def dashboard_def)

lemma login_run_waits:
  assumes "login_run l p r evs"
  shows "(r = Inr ()) =
         (succeeded_waits evs =
            [(10, login_field), (10, pass_field), (10, submit_button), (10, dashboard)])"
    and "failed_waits evs \<noteq> [] \<Longrightarrow> r \<noteq> Inr ()"
  using assms by (induction rule: login_run.induct) simp_all

lemma login_run_login_field_missing:
  assumes "login_run l p r evs" and "(CallUntil 10 login_field, Some e) \<in> set evs"
  shows "r = Inl e" and "evs = [(CallGet portal_url, None), (CallUntil 10 login_field, Some e)]"
  using assms by (induction rule: login_run.induct) auto

lemma login_run_submitted:
  assumes "login_run l p r evs" and "(CallClick v, None) \<in> set evs"
  shows "fst (last evs) = CallUntil 10 dashboard"
    and "case snd (last evs) of None \<Rightarrow> r = Inr () | Some e \<Rightarrow> r = Inl e"
  using assms by (induction rule: login_run.induct) auto

text \<open>Three runs of the flow on the scripted browser.\<close>

lemma trace_start [simp]: "trace (start b) = []"
  by (simp add: start_def)

lemmas login_defs = login_platonus_def open_url_def isinstance_str_def startswith_def str_of_def
  portal_url_def login_field_def pass_field_def submit_button_def dashboard_def

lemma login_portal_run:
  "login_platonus scripted_browser ''u'' ''p'' (start portal) =
     (Inr (),
      \<lparr>browser = portal\<lparr>sb_location := ''https://platonus.iitu.edu.kz/dashboard'',
                         sb_typed := [(''login_input'', ''u''), (''pass_input'', ''p'')]\<rparr>,
       trace =
         [(CallGet ''https://platonus.iitu.edu.kz/'', None),
          (CallUntil 10 (presence_of_element_located (ById ''login_input'')), None),
          (CallSendKeys ''login_input'' ''u'', None),
          (CallUntil 10 (presence_of_element_located (ById ''pass_input'')), None),
          (CallSendKeys ''pass_input'' ''p'', None),
          (CallUntil 10 (element_to_be_clickable (ById ''Submit1'')), None),
          (CallClick ''Submit1'', None),
          (CallUntil 10 (url_contains ''/dashboard''), None)],
       log =
         [\<lparr>logger_name = ''WebDriverManager'', levelname = INFO, msg = ''Opened URL: %s'',
           args = [ArgVal (PyStr ''https://platonus.iitu.edu.kz/'')]\<rparr>,
          \<lparr>logger_name = ''BrowserAutomation'', levelname = INFO,
           msg = ''Entered login.'', args = []\<rparr>,
          \<lparr>logger_name = ''BrowserAutomation'', levelname = INFO,
           msg = ''Entered password.'', args = []\<rparr>,
          \<lparr>logger_name = ''BrowserAutomation'', levelname = INFO,
           msg = ''Clicked login button.'', args = []\<rparr>,
          \<lparr>logger_name = ''BrowserAutomation'', levelname = INFO,
           msg = ''Login successful, navigated to dashboard.'', args = []\<rparr>]\<rparr>)"
  by (simp add: login_defs run_defs scripted_defs)

lemma login_no_login_field_run:
  "login_platonus scripted_browser ''u'' ''p'' (start (portal\<lparr>sb_present := []\<rparr>)) =
     (Inl (TimeoutException []),
      \<lparr>browser = portal\<lparr>sb_location := ''https://platonus.iitu.edu.kz/'', sb_present := []\<rparr>,
       trace =
         [(CallGet ''https://platonus.iitu.edu.kz/'', None),
          (CallUntil 10 (presence_of_element_located (ById ''login_input'')),
           Some (TimeoutException []))],
       log =
         [\<lparr>logger_name = ''WebDriverManager'', levelname = INFO, msg = ''Opened URL: %s'',
           args = [ArgVal (PyStr ''https://platonus.iitu.edu.kz/'')]\<rparr>,
          \<lparr>logger_name = ''BrowserAutomation'', levelname = ERROR,
           msg = ''Error logging in to Platonus: %s'',
           args = [ArgExn (TimeoutException [])]\<rparr>]\<rparr>)"
  by (simp add: login_defs run_defs scripted_defs)

lemma login_no_dashboard_run:
  "login_platonus scripted_browser ''u'' ''p''
     (start (portal\<lparr>sb_landing := ''https://platonus.iitu.edu.kz/''\<rparr>)) =
     (Inl (TimeoutException []),
      \<lparr>browser = portal\<lparr>sb_location := ''https://platonus.iitu.edu.kz/'',
                         sb_typed := [(''login_input'', ''u''), (''pass_input'', ''p'')],
                         sb_landing := ''https://platonus.iitu.edu.kz/''\<rparr>,
       trace =
         [(CallGet ''https://platonus.iitu.edu.kz/'', None),
          (CallUntil 10 (presence_of_element_located (ById ''login_input'')), None),
          (CallSendKeys ''login_input'' ''u'', None),
          (CallUntil 10 (presence_of_element_located (ById ''pass_input'')), None),
          (CallSendKeys ''pass_input'' ''p'', None),
          (CallUntil 10 (element_to_be_clickable (ById ''Submit1'')), None),
          (CallClick ''Submit1'', None),
          (CallUntil 10 (url_contains ''/dashboard''), Some (TimeoutException []))],
       log =
         [\<lparr>logger_name = ''WebDriverManager'', levelname = INFO, msg = ''Opened URL: %s'',
           args = [ArgVal (PyStr ''https://platonus.iitu.edu.kz/'')]\<rparr>,
          \<lparr>logger_name = ''BrowserAutomation'', levelname = INFO,
           msg = ''Entered login.'', args = []\<rparr>,
          \<lparr>logger_name = ''BrowserAutomation'', levelname = INFO,
           msg = ''Entered password.'', args = []\<rparr>,
          \<lparr>logger_name = ''BrowserAutomation'', levelname = INFO,
           msg = ''Clicked login button.'', args = []\<rparr>,
          \<lparr>logger_name = ''BrowserAutomation'', levelname = ERROR,
           msg = ''Error logging in to Platonus: %s'',
           args = [ArgExn (TimeoutException [])]\<rparr>]\<rparr>)"
  by (simp add: login_defs run_defs scripted_defs)

lemma login_outcome_returns:
  assumes "login_outcome d l p b r evs b'"
  shows "(r = Inr ()) =
         (\<exists>b1 v1 b2 b3 v2 b4 b5 v3 b6 b7 v4.
            drv_get d portal_url b = (Inr (), b1) \<and>
            drv_until d 10 login_field b1 = (Inr v1, b2) \<and>
            drv_send_keys d v1 l b2 = (Inr (), b3) \<and>
            drv_until d 10 pass_field b3 = (Inr v2, b4) \<and>
            drv_send_keys d v2 p b4 = (Inr (), b5) \<and>
            drv_until d 10 submit_button b5 = (Inr v3, b6) \<and>
            drv_click d v3 b6 = (Inr (), b7) \<and>
            drv_until d 10 dashboard b7 = (Inr v4, b') \<and>
            evs = [(CallGet portal_url, None), (CallUntil 10 login_field, None),
                   (CallSendKeys v1 l, None), (CallUntil 10 pass_field, None),
                   (CallSendKeys v2 p, None), (CallUntil 10 submit_button, None),
                   (CallClick v3, None), (CallUntil 10 dashboard, None)])"
  using assms by (induction rule: login_outcome.induct) auto

text \<open>
  Claim C1. \<open>login_platonus\<close> returns normally, the terminal state LoggedIn, if and only
  if the browser answers every step of the flow without an error, the four bounded waits
  (identifier field present, secret field present, submit control clickable, address
  contains the dashboard substring) in that order, each in the state the step before it
  left, with the two injections and the click applied to what the waits returned; these
  eight calls are then the calls of the flow and the browser is left as the last wait
  left it. Equivalently, the successful waits among the calls of the flow are exactly
  the four, in order. When any bounded wait of the flow fails, the flow does not reach
  LoggedIn. In every case the result, the calls and the final browser state are those
  that the answers of the library determine.
\<close>

theorem login_reaches_LoggedIn_iff:
  assumes "login_platonus d l p w = (r, w')"
  shows "(r = Inr () \<longleftrightarrow>
            (\<exists>b1 v1 b2 b3 v2 b4 b5 v3 b6 b7 v4.
               drv_get d portal_url (browser w) = (Inr (), b1) \<and>
               drv_until d 10 login_field b1 = (Inr v1, b2) \<and>
               drv_send_keys d v1 l b2 = (Inr (), b3) \<and>
               drv_until d 10 pass_field b3 = (Inr v2, b4) \<and>
               drv_send_keys d v2 p b4 = (Inr (), b5) \<and>
               drv_until d 10 submit_button b5 = (Inr v3, b6) \<and>
               drv_click d v3 b6 = (Inr (), b7) \<and>
               drv_until d 10 dashboard b7 = (Inr v4, browser w') \<and>
               new_events w w' =
                 [(CallGet portal_url, None), (CallUntil 10 login_field, None),
                  (CallSendKeys v1 l, None), (CallUntil 10 pass_field, None),
                  (CallSendKeys v2 p, None), (CallUntil 10 submit_button, None),
                  (CallClick v3, None), (CallUntil 10 dashboard, None)])) \<and>
         (r = Inr () \<longleftrightarrow>
            succeeded_waits (new_events w w') =
              [(10, login_field), (10, pass_field), (10, submit_button), (10, dashboard)]) \<and>
         (failed_waits (new_events w w') \<noteq> [] \<longrightarrow> r \<noteq> Inr ()) \<and>
         login_outcome d l p (browser w) r (new_events w w') (browser w')"
proof -
  note out = login_platonus_outcome(2) [OF assms]
  note run = login_platonus_run(2) [OF assms]
  show ?thesis
    using login_outcome_returns [OF out] login_run_waits [OF run] out by blast
qed

theorem login_reaches_LoggedIn_iff_witness:
  "fst (login_platonus scripted_browser ''u'' ''p'' (start portal)) = Inr () \<and>
   succeeded_waits
     (new_events (start portal)
        (snd (login_platonus scripted_browser ''u'' ''p'' (start portal)))) =
     [(10, login_field), (10, pass_field), (10, submit_button), (10, dashboard)] \<and>
   drv_until scripted_browser 10 dashboard
     (portal\<lparr>sb_location := ''https://platonus.iitu.edu.kz/dashboard'',
             sb_typed := [(''login_input'', ''u''), (''pass_input'', ''p'')]\<rparr>) =
     (Inr ''True'',
      browser (snd (login_platonus scripted_browser ''u'' ''p'' (start portal)))) \<and>
   fst (login_platonus scripted_browser ''u'' ''p''
          (start (portal\<lparr>sb_landing := ''https://platonus.iitu.edu.kz/''\<rparr>))) =
     Inl (TimeoutException []) \<and>
   failed_waits
     (new_events (start (portal\<lparr>sb_landing := ''https://platonus.iitu.edu.kz/''\<rparr>))
        (snd (login_platonus scripted_browser ''u'' ''p''
                (start (portal\<lparr>sb_landing := ''https://platonus.iitu.edu.kz/''\<rparr>))))) =
     [(10, dashboard, TimeoutException [])]"
proof -
  note ok = login_reaches_LoggedIn_iff [OF login_portal_run]
  note ko = login_reaches_LoggedIn_iff [OF login_no_dashboard_run]
  have lib: "drv_until scripted_browser 10 dashboard
     (portal\<lparr>sb_location := ''https://platonus.iitu.edu.kz/dashboard'',
             sb_typed := [(''login_input'', ''u''), (''pass_input'', ''p'')]\<rparr>) =
     (Inr ''True'',
      portal\<lparr>sb_location := ''https://platonus.iitu.edu.kz/dashboard'',
             sb_typed := [(''login_input'', ''u''), (''pass_input'', ''p'')]\<rparr>)"
    by (simp add: scripted_defs dashboard_def)
  from ok [THEN conjunct2, THEN conjunct1] ko [THEN conjunct2, THEN conjunct2, THEN conjunct1]
  show ?thesis
    by (simp add: login_portal_run login_no_dashboard_run new_events_def
          lib [unfolded dashboard_def]
          login_field_def pass_field_def submit_button_def dashboard_def)
qed

text \<open>
  Claim C2. When the wait for the identifier field fails, the flow fails with the error
  of that wait (the timeout), and the calls of the flow are the navigation and that wait
  only: nothing is typed, so the secret is never injected, nothing is clicked, and no
  later wait runs.
\<close>

theorem identifier_timeout_stops_flow:
  assumes "login_platonus d l p w = (r, w')"
    and "(CallUntil 10 login_field, Some e) \<in> set (new_events w w')"
  shows "r = Inl e \<and>
         new_events w w' = [(CallGet portal_url, None), (CallUntil 10 login_field, Some e)] \<and>
         (\<forall>ev \<in> set (new_events w w'). \<forall>v k. fst ev \<noteq> CallSendKeys v k \<and> fst ev \<noteq> CallClick v)"
proof -
  from login_run_login_field_missing [OF login_platonus_run(2) [OF assms(1)] assms(2)]
  have "r = Inl e"
    and evs: "new_events w w' = [(CallGet portal_url, None), (CallUntil 10 login_field, Some e)]"
    by simp_all
  then show ?thesis by simp
qed

theorem identifier_timeout_stops_flow_witness:
  "fst (login_platonus scripted_browser ''u'' ''p'' (start (portal\<lparr>sb_present := []\<rparr>))) =
     Inl (TimeoutException []) \<and>
   new_events (start (portal\<lparr>sb_present := []\<rparr>))
     (snd (login_platonus scripted_browser ''u'' ''p'' (start (portal\<lparr>sb_present := []\<rparr>)))) =
     [(CallGet portal_url, None), (CallUntil 10 login_field, Some (TimeoutException []))]"
proof -
  have "(CallUntil 10 login_field, Some (TimeoutException [])) \<in>
        set (new_events (start (portal\<lparr>sb_present := []\<rparr>))
               (snd (login_platonus scripted_browser ''u'' ''p''
                       (start (portal\<lparr>sb_present := []\<rparr>)))))"
    by (simp add: login_no_login_field_run new_events_def login_field_def)
  from identifier_timeout_stops_flow [OF prod.collapse [symmetric] this]
  show ?thesis by blast
qed



section \<open>Errors are logged and propagated\<close>

lemma logged_last_except:
  assumes "fst (except_Exception n f res) = Inl e" and "is_Exception e"
  shows "logged_last n f e (log (snd (except_Exception n f res)))"
proof -
  from assms(1) have "fst res = Inl e" by simp
  from except_logged [OF this assms(2), of n f] show ?thesis
    by (simp add: logged_last_def)
qed

lemmas relays_defs = relays_def rejects_def invoke_def except_Exception_def logger_error_def
  logger_info_def logged_last_def outcome_def new_events_def

lemma quit_driver_relays:
  "relays ''WebDriverManager'' ''Error quitting WebDriver: %s'' CallQuit
     (drv_quit d (browser w)) w (quit_driver d w)"
proof (cases "drv_quit d (browser w)")
  case (Pair r0 b0)
  then show ?thesis by (cases r0) (simp_all add: quit_driver_def relays_defs)
qed

lemma execute_script_relays:
  "relays ''WebDriverManager'' ''Error executing script: %s'' (CallExecuteScript script as)
     (drv_execute_script d script as (browser w)) w (execute_script d script as w)"
proof (cases "drv_execute_script d script as (browser w)")
  case (Pair r0 b0)
  then show ?thesis by (cases r0) (simp_all add: execute_script_def relays_defs)
qed

lemma initialize_driver_relays:
  assumes "browser (snd (default_options w)) = browser w"
    and "trace (snd (default_options w)) = trace w"
  shows "relays ''WebDriverManager'' ''Error initializing WebDriver: %s''
           (CallChrome (case options of Some os \<Rightarrow> os | None \<Rightarrow> fst (default_options w)))
           (drv_Chrome d (case options of Some os \<Rightarrow> os | None \<Rightarrow> fst (default_options w))
              (browser w))
           w (initialize_driver default_options d options w)"
proof -
  obtain os0 w0 where dflt: "default_options w = (os0, w0)" by (cases "default_options w")
  with assms have w0: "browser w0 = browser w" "trace w0 = trace w" by simp_all
  show ?thesis
  proof (cases options)
    case None
    show ?thesis
    proof (cases "drv_Chrome d os0 (browser w)")
      case (Pair r0 b0)
      then show ?thesis
        using None dflt w0 by (cases r0) (simp_all add: initialize_driver_def relays_defs)
    qed
  next
    case (Some os)
    show ?thesis
    proof (cases "drv_Chrome d os (browser w)")
      case (Pair r0 b0)
      then show ?thesis
        using Some by (cases r0) (simp_all add: initialize_driver_def relays_defs)
    qed
  qed
qed

lemma open_url_relays:
  assumes "isinstance_str url" and "startswith url ''http''"
  shows "relays ''WebDriverManager'' ''Error opening URL: %s'' (CallGet (str_of url))
           (drv_get d (str_of url) (browser w)) w (open_url d url w)"
proof (cases "drv_get d (str_of url) (browser w)")
  case (Pair r0 b0)
  then show ?thesis using assms by (cases r0) (simp_all add: open_url_def relays_defs)
qed

lemma open_url_rejects:
  assumes "\<not> (isinstance_str url \<and> startswith url ''http'')"
  shows "rejects ''WebDriverManager'' ''Error opening URL: %s''
           (ValueError ''Invalid URL provided'') w (open_url d url w)"
  using assms by (auto simp: open_url_def relays_defs ValueError_def)

lemma wait_relays:
  assumes "isinstance_int_float seconds" and "\<not> lt_zero seconds"
  shows "relays ''WebDriverManager'' ''Error during wait: %s'' (CallImplicitlyWait seconds)
           (drv_implicitly_wait d seconds (browser w)) w (wait d seconds w)"
proof (cases "drv_implicitly_wait d seconds (browser w)")
  case (Pair r0 b0)
  then show ?thesis using assms by (cases r0) (simp_all add: wait_def relays_defs)
qed

lemma wait_rejects:
  assumes "\<not> (isinstance_int_float seconds \<and> \<not> lt_zero seconds)"
  shows "rejects ''WebDriverManager'' ''Error during wait: %s''
           (ValueError ''Wait time must be a non-negative number'') w (wait d seconds w)"
  using assms by (auto simp: wait_def relays_defs ValueError_def)

lemma login_platonus_logged:
  assumes "fst (login_platonus d l p w) = Inl e" and "is_Exception e"
  shows "logged_last ''BrowserAutomation'' ''Error logging in to Platonus: %s'' e
           (log (snd (login_platonus d l p w)))"
  using assms unfolding login_platonus_def by (rule logged_last_except)

text \<open>
  Claim C7. In every operation of the driver session (\<open>_initialize_driver\<close>, \<open>open_url\<close>,
  \<open>wait\<close>, \<open>quit_driver\<close>, \<open>execute_script\<close>) and in the login flow, an error raised inside
  the operation is logged by the operation and reaches the caller unchanged. Each
  operation of the session makes its one library call, once; when the library raises,
  the operation raises the library's own exception, after logging it, and the browser is
  left as the library left it: nothing is retried and nothing is recovered; when the
  library returns, so does the operation, with the library's result. The guards of
  \<open>open_url\<close> and \<open>wait\<close> raise and log their own error without any library call. The login
  flow ends at the first library call that raises, with that call's exception, logged,
  and with the browser as that call left it.
\<close>

theorem errors_logged_and_propagated:
  "relays ''WebDriverManager'' ''Error initializing WebDriver: %s'' (CallChrome os)
     (drv_Chrome d os (browser w)) w (initialize_driver script1_default_options d (Some os) w) \<and>
   relays ''WebDriverManager'' ''Error initializing WebDriver: %s'' (CallChrome os)
     (drv_Chrome d os (browser w)) w (initialize_driver script2_default_options d (Some os) w) \<and>
   relays ''WebDriverManager'' ''Error initializing WebDriver: %s''
     (CallChrome (fst (script1_default_options w)))
     (drv_Chrome d (fst (script1_default_options w)) (browser w)) w
     (initialize_driver script1_default_options d None w) \<and>
   relays ''WebDriverManager'' ''Error initializing WebDriver: %s''
     (CallChrome (fst (script2_default_options w)))
     (drv_Chrome d (fst (script2_default_options w)) (browser w)) w
     (initialize_driver script2_default_options d None w) \<and>
   (if isinstance_str url \<and> startswith url ''http''
    then relays ''WebDriverManager'' ''Error opening URL: %s'' (CallGet (str_of url))
           (drv_get d (str_of url) (browser w)) w (open_url d url w)
    else rejects ''WebDriverManager'' ''Error opening URL: %s''
           (ValueError ''Invalid URL provided'') w (open_url d url w)) \<and>
   (if isinstance_int_float seconds \<and> \<not> lt_zero seconds
    then relays ''WebDriverManager'' ''Error during wait: %s'' (CallImplicitlyWait seconds)
           (drv_implicitly_wait d seconds (browser w)) w (wait d seconds w)
    else rejects ''WebDriverManager'' ''Error during wait: %s''
           (ValueError ''Wait time must be a non-negative number'') w (wait d seconds w)) \<and>
   relays ''WebDriverManager'' ''Error quitting WebDriver: %s'' CallQuit
     (drv_quit d (browser w)) w (quit_driver d w) \<and>
   relays ''WebDriverManager'' ''Error executing script: %s'' (CallExecuteScript script as)
     (drv_execute_script d script as (browser w)) w (execute_script d script as w) \<and>
   login_outcome d l p (browser w) (fst (login_platonus d l p w))
     (new_events w (snd (login_platonus d l p w))) (browser (snd (login_platonus d l p w))) \<and>
   (\<forall>e. fst (login_platonus d l p w) = Inl e \<and> is_Exception e \<longrightarrow>
      logged_last ''BrowserAutomation'' ''Error logging in to Platonus: %s'' e
        (log (snd (login_platonus d l p w))))"
proof -
  have i1: "relays ''WebDriverManager'' ''Error initializing WebDriver: %s'' (CallChrome os)
     (drv_Chrome d os (browser w)) w (initialize_driver script1_default_options d (Some os) w)"
    using initialize_driver_relays [of script1_default_options w "Some os" d]
    by (simp add: script1_default_options_def)
  have i2: "relays ''WebDriverManager'' ''Error initializing WebDriver: %s'' (CallChrome os)
     (drv_Chrome d os (browser w)) w (initialize_driver script2_default_options d (Some os) w)"
    using initialize_driver_relays [of script2_default_options w "Some os" d]
    by (simp add: script2_default_options_def)
  have i3: "relays ''WebDriverManager'' ''Error initializing WebDriver: %s''
     (CallChrome (fst (script1_default_options w)))
     (drv_Chrome d (fst (script1_default_options w)) (browser w)) w
     (initialize_driver script1_default_options d None w)"
    using initialize_driver_relays [of script1_default_options w None d]
    by (simp add: script1_default_options_def)
  have i4: "relays ''WebDriverManager'' ''Error initializing WebDriver: %s''
     (CallChrome (fst (script2_default_options w)))
     (drv_Chrome d (fst (script2_default_options w)) (browser w)) w
     (initialize_driver script2_default_options d None w)"
    using initialize_driver_relays [of script2_default_options w None d]
    by (simp add: script2_default_options_def)
  have u: "if isinstance_str url \<and> startswith url ''http''
    then relays ''WebDriverManager'' ''Error opening URL: %s'' (CallGet (str_of url))
           (drv_get d (str_of url) (browser w)) w (open_url d url w)
    else rejects ''WebDriverManager'' ''Error opening URL: %s''
           (ValueError ''Invalid URL provided'') w (open_url d url w)"
  proof (cases "isinstance_str url \<and> startswith url ''http''")
    case True
    then show ?thesis by (simp add: open_url_relays)
  next
    case False
    show ?thesis by (simp only: if_not_P [OF False]) (rule open_url_rejects [OF False])
  qed
  have s: "if isinstance_int_float seconds \<and> \<not> lt_zero seconds
    then relays ''WebDriverManager'' ''Error during wait: %s'' (CallImplicitlyWait seconds)
           (drv_implicitly_wait d seconds (browser w)) w (wait d seconds w)
    else rejects ''WebDriverManager'' ''Error during wait: %s''
           (ValueError ''Wait time must be a non-negative number'') w (wait d seconds w)"
  proof (cases "isinstance_int_float seconds \<and> \<not> lt_zero seconds")
    case True
    then show ?thesis by (simp add: wait_relays)
  next
    case False
    show ?thesis by (simp only: if_not_P [OF False]) (rule wait_rejects [OF False])
  qed
  have lo: "login_outcome d l p (browser w) (fst (login_platonus d l p w))
     (new_events w (snd (login_platonus d l p w))) (browser (snd (login_platonus d l p w)))"
    by (rule login_platonus_outcome(2) [OF prod.collapse [symmetric]])
  have ll: "\<forall>e. fst (login_platonus d l p w) = Inl e \<and> is_Exception e \<longrightarrow>
      logged_last ''BrowserAutomation'' ''Error logging in to Platonus: %s'' e
        (log (snd (login_platonus d l p w)))"
    using login_platonus_logged by blast
  show ?thesis
    by (intro conjI i1 i2 i3 i4 u s quit_driver_relays execute_script_relays lo ll)
qed

theorem errors_logged_and_propagated_witness:
  "drv_quit scripted_browser (portal\<lparr>sb_alive := False\<rparr>) =
     (Inl (WebDriverException ''invalid session id''), portal\<lparr>sb_alive := False\<rparr>) \<and>
   is_Exception (WebDriverException ''invalid session id'') \<and>
   fst (quit_driver scripted_browser (start (portal\<lparr>sb_alive := False\<rparr>))) =
     Inl (WebDriverException ''invalid session id'') \<and>
   new_events (start (portal\<lparr>sb_alive := False\<rparr>))
     (snd (quit_driver scripted_browser (start (portal\<lparr>sb_alive := False\<rparr>)))) =
     [(CallQuit, Some (WebDriverException ''invalid session id''))] \<and>
   logged_last ''WebDriverManager'' ''Error quitting WebDriver: %s''
     (WebDriverException ''invalid session id'')
     (log (snd (quit_driver scripted_browser (start (portal\<lparr>sb_alive := False\<rparr>))))) \<and>
   fst (login_platonus scripted_browser ''u'' ''p'' (start (portal\<lparr>sb_present := []\<rparr>))) =
     Inl (TimeoutException []) \<and>
   is_Exception (TimeoutException []) \<and>
   logged_last ''BrowserAutomation'' ''Error logging in to Platonus: %s'' (TimeoutException [])
     (log (snd (login_platonus scripted_browser ''u'' ''p''
                  (start (portal\<lparr>sb_present := []\<rparr>)))))"
proof -
  note all = errors_logged_and_propagated
    [where w = "start (portal\<lparr>sb_alive := False\<rparr>)" and d = scripted_browser]
  have closed: "drv_quit scripted_browser (portal\<lparr>sb_alive := False\<rparr>) =
     (Inl (WebDriverException ''invalid session id''), portal\<lparr>sb_alive := False\<rparr>)"
    by (simp add: scripted_defs)
  then have lib: "drv_quit scripted_browser (browser (start (portal\<lparr>sb_alive := False\<rparr>))) =
     (Inl (WebDriverException ''invalid session id''), portal\<lparr>sb_alive := False\<rparr>)"
    by (simp add: start_def)
  have "relays ''WebDriverManager'' ''Error quitting WebDriver: %s'' CallQuit
          (drv_quit scripted_browser (browser (start (portal\<lparr>sb_alive := False\<rparr>))))
          (start (portal\<lparr>sb_alive := False\<rparr>))
          (quit_driver scripted_browser (start (portal\<lparr>sb_alive := False\<rparr>)))"
    using all by blast
  then have q: "fst (quit_driver scripted_browser (start (portal\<lparr>sb_alive := False\<rparr>))) =
       Inl (WebDriverException ''invalid session id'')"
    "new_events (start (portal\<lparr>sb_alive := False\<rparr>))
       (snd (quit_driver scripted_browser (start (portal\<lparr>sb_alive := False\<rparr>)))) =
       [(CallQuit, Some (WebDriverException ''invalid session id''))]"
    "logged_last ''WebDriverManager'' ''Error quitting WebDriver: %s''
       (WebDriverException ''invalid session id'')
       (log (snd (quit_driver scripted_browser (start (portal\<lparr>sb_alive := False\<rparr>)))))"
    by (simp_all add: relays_def lib outcome_def WebDriverException_def)
  note flow = errors_logged_and_propagated
    [where w = "start (portal\<lparr>sb_present := []\<rparr>)" and d = scripted_browser
       and l = "''u''" and p = "''p''"]
  have "\<forall>e. fst (login_platonus scripted_browser ''u'' ''p''
                   (start (portal\<lparr>sb_present := []\<rparr>))) = Inl e \<and> is_Exception e \<longrightarrow>
      logged_last ''BrowserAutomation'' ''Error logging in to Platonus: %s'' e
        (log (snd (login_platonus scripted_browser ''u'' ''p''
                     (start (portal\<lparr>sb_present := []\<rparr>)))))"
    using flow by blast
  then have f: "logged_last ''BrowserAutomation'' ''Error logging in to Platonus: %s''
      (TimeoutException [])
      (log (snd (login_platonus scripted_browser ''u'' ''p''
                   (start (portal\<lparr>sb_present := []\<rparr>)))))"
    by (simp add: login_no_login_field_run TimeoutException_def)
  from q f closed show ?thesis
    by (simp add: login_no_login_field_run TimeoutException_def WebDriverException_def)
qed

section \<open>Session shutdown\<close>

lemma browser_start [simp]: "browser (start b) = b"
  by (simp add: start_def)

lemma login_outcome_no_quit:
  "login_outcome d l p b r evs b' \<Longrightarrow> filter (\<lambda>ev. fst ev = CallQuit) evs = []"
  by (induction rule: login_outcome.induct) simp_all

lemma initialize_driver_opened:
  assumes "drv_Chrome d os (browser w) = (Inr u, b1)"
  shows "\<exists>w2. initialize_driver dflt d (Some os) w = (Inr (), w2) \<and> browser w2 = b1 \<and>
              trace w2 = trace w @ [(CallChrome os, None)]"
  using assms by (simp add: initialize_driver_def run_defs)

lemma try_except_finally_quits:
  assumes "drv_quit d (browser w3) = (rq, b')"
  shows "fst (try_except_finally d (r3, w3)) =
           (case rq of
              Inl e' \<Rightarrow> Inl e'
            | Inr u \<Rightarrow> (case r3 of
                          Inl e \<Rightarrow> if is_Exception e then Inr () else Inl e
                        | Inr x \<Rightarrow> Inr ()))"
    and "browser (snd (try_except_finally d (r3, w3))) = b'"
    and "trace (snd (try_except_finally d (r3, w3))) = trace w3 @ [(CallQuit, outcome rq)]"
proof -
  have "fst (try_except_finally d (r3, w3)) =
           (case rq of
              Inl e' \<Rightarrow> Inl e'
            | Inr u \<Rightarrow> (case r3 of
                          Inl e \<Rightarrow> if is_Exception e then Inr () else Inl e
                        | Inr x \<Rightarrow> Inr ())) \<and>
     browser (snd (try_except_finally d (r3, w3))) = b' \<and>
     trace (snd (try_except_finally d (r3, w3))) = trace w3 @ [(CallQuit, outcome rq)]"
  proof (cases r3)
    case (Inl e)
    show ?thesis
    proof (cases "is_Exception e")
      case True
      with Inl assms show ?thesis
        by (cases rq) (simp_all add: try_except_finally_def quit_driver_def run_defs)
    next
      case False
      with Inl assms show ?thesis
        by (cases rq) (simp_all add: try_except_finally_def quit_driver_def run_defs)
    qed
  next
    case (Inr x)
    with assms show ?thesis
      by (cases rq) (simp_all add: try_except_finally_def quit_driver_def run_defs)
  qed
  then show "fst (try_except_finally d (r3, w3)) =
           (case rq of
              Inl e' \<Rightarrow> Inl e'
            | Inr u \<Rightarrow> (case r3 of
                          Inl e \<Rightarrow> if is_Exception e then Inr () else Inl e
                        | Inr x \<Rightarrow> Inr ()))"
    and "browser (snd (try_except_finally d (r3, w3))) = b'"
    and "trace (snd (try_except_finally d (r3, w3))) = trace w3 @ [(CallQuit, outcome rq)]"
    by simp_all
qed


lemma quit_driver_result:
  assumes "drv_quit d (browser w) = (rq, b')"
  shows "fst (quit_driver d w) = rq" and "browser (snd (quit_driver d w)) = b'"
  using assms by (cases rq; simp add: quit_driver_def run_defs)+


text \<open>Two runs of \<open>main\<close> on the scripted browser.\<close>

lemma script2_main_portal_run:
  "fst (script2_main scripted_browser ''u'' ''p'' (start portal)) = Inr () \<and>
   trace (snd (script2_main scripted_browser ''u'' ''p'' (start portal))) =
     [(CallChrome [], None),
      (CallGet ''https://platonus.iitu.edu.kz/'', None),
      (CallUntil 10 (presence_of_element_located (ById ''login_input'')), None),
      (CallSendKeys ''login_input'' ''u'', None),
      (CallUntil 10 (presence_of_element_located (ById ''pass_input'')), None),
      (CallSendKeys ''pass_input'' ''p'', None),
      (CallUntil 10 (element_to_be_clickable (ById ''Submit1'')), None),
      (CallClick ''Submit1'', None),
      (CallUntil 10 (url_contains ''/dashboard''), None),
      (CallQuit, None)]"
  by (simp add: script2_main_def try_except_finally_def initialize_driver_def quit_driver_def
        login_defs run_defs scripted_defs)

lemma script2_main_no_login_field_run:
  "fst (script2_main scripted_browser ''u'' ''p'' (start (portal\<lparr>sb_present := []\<rparr>))) = Inr () \<and>
   trace (snd (script2_main scripted_browser ''u'' ''p''
                 (start (portal\<lparr>sb_present := []\<rparr>)))) =
     [(CallChrome [], None),
      (CallGet ''https://platonus.iitu.edu.kz/'', None),
      (CallUntil 10 (presence_of_element_located (ById ''login_input'')),
       Some (TimeoutException [])),
      (CallQuit, None)]"
  by (simp add: script2_main_def try_except_finally_def initialize_driver_def quit_driver_def
        login_defs run_defs scripted_defs)



end
